theory Spec2Isabelle
  imports Main "HOL-Library.AList"
begin

section \<open>Data model\<close>

text \<open>
  The Bring-up phase of the local node (class \<open>InitState\<close>, file
  \<open>src/state/InitState.ts\<close>) and the constants it imports from \<open>../constants\<close>.
  The calls to the logger change nothing that is modelled here and are left out.

  A \<open>Configuration\<close> is one \<open>{key, value}\<close> entry of the catalog. The code only ever
  interpolates a value into a template literal or stores it into \<open>process.env\<close>, and
  both turn it into a string, so a value is held as that string.
\<close>

record Configuration =
  key :: string
  "value" :: string

text \<open>
  \<open>nodeConfiguration?.properties\<close>: the node configuration of a catalog entry is
  optional, and so is what the optional chaining reads from it.
\<close>

record NodeConfiguration =
  properties :: "Configuration list option"

record NetworkConfiguration =
  imageTagConfiguration :: "Configuration list"
  envConfiguration :: "Configuration list option"
  nodeConfiguration :: "NodeConfiguration option"

text \<open>The fields of \<open>CLIOptions\<close> that \<open>InitState\<close> reads.\<close>

record CLIOptions =
  network :: string
  workDir :: string
  host :: string
  devMode :: bool
  fullMode :: bool
  multiNode :: bool
  limits :: bool
  enableDebug :: bool

text \<open>The two members of \<open>EventType\<close> that \<open>InitState\<close> sends.\<close>

datatype EventType = Finish | UnresolvableError

text \<open>
  What \<open>yaml.load\<close> returns, as \<open>configureMirrorNodeProperties\<close> sees it. A value is
  \<open>null\<close> or \<open>undefined\<close> (\<open>YNull\<close>), a primitive string, number or boolean (by its
  text), or a reference to an object. An object is a plain object with its keys in
  insertion order, an array, or any other object the loader builds (a timestamp,
  binary data). The objects live in a memory, from addresses to objects: two
  positions of a document that the loader makes one object (a YAML alias) hold the
  same reference, and an assignment into that object shows at both.
\<close>

datatype yaml =
  YNull
  | YScalar string
  | YRef nat

datatype yamlObject =
  YMap "(string \<times> yaml) list"
  | YSeq "yaml list"
  | YOther string

type_synonym memory = "nat \<rightharpoonup> yamlObject"

text \<open>
  \<open>originalNodeConfiguration.json\<close> is imported by the source and is not part of it:
  its five entries that the code reads are parameters, together with the memory
  that holds the objects of the imported document.
\<close>

record OriginalNodeConfiguration =
  bootsrapProperties :: "Configuration list"
  turboNodeProperties_dataPath :: yaml
  turboNodeProperties_sources :: yaml
  local :: yaml
  multiNodeProperties :: yaml
  objects :: memory

datatype error =
  UnrecognizedNetwork string
  | PortInUse nat
  | IOError string
  | YAMLException
  | TypeError

text \<open>
  The file tree: the directories that exist and the content of each regular file.
\<close>

record FileSystem =
  dirs :: "string set"
  files :: "string \<rightharpoonup> string"

text \<open>
  The calls that \<open>InitState\<close> makes to the Docker service, to the file-system
  utilities and to the file system itself, in the order it makes them.
\<close>

datatype Call =
  IsCorrectDockerComposeVersion
  | CheckDocker
  | CheckDockerResources bool
  | IsPortInUse "nat list"
  | CreateEphemeralDirectories string
  | CopyPaths "(string \<times> string) list"
  | ReadFileSync string
  | WriteFileSync string string

text \<open>
  The collaborators of \<open>InitState\<close>, none of which is in the source files: what the
  host answers and does. \<open>dirname\<close> is \<open>__dirname\<close>, \<open>join\<close> is \<open>path.join\<close> of the
  platform, \<open>catalog\<close> is the static table of network configurations, the three
  booleans are what the readiness checks of the Docker service resolve to,
  \<open>portBusy\<close> tells which ports are taken, \<open>createEphemeralDirectories\<close> and
  \<open>copyPaths\<close> are the two \<open>FileSystemUtils\<close> operations, \<open>writeDenied\<close> tells for
  which paths \<open>writeFileSync\<close> throws, and \<open>yaml_load\<close> and \<open>yaml_dump\<close> (with its
  \<open>lineWidth\<close>) are the two functions of \<open>js-yaml\<close>: the first reads a text and
  gives the document's root together with the memory extended by the objects it
  built, the second serializes what a root reaches in a memory.
\<close>

record Host =
  dirname :: string
  join :: "string list \<Rightarrow> string"
  catalog :: "string \<rightharpoonup> NetworkConfiguration"
  isCorrectDockerComposeVersion :: bool
  checkDocker :: bool
  checkDockerResources :: "bool \<Rightarrow> bool"
  portBusy :: "nat \<Rightarrow> bool"
  createEphemeralDirectories :: "string \<Rightarrow> FileSystem \<Rightarrow> error option \<times> FileSystem"
  copyPaths :: "(string \<times> string) list \<Rightarrow> FileSystem \<Rightarrow> error option \<times> FileSystem"
  writeDenied :: "string \<Rightarrow> bool"
  yaml_load :: "string \<Rightarrow> memory \<Rightarrow> error + yaml \<times> memory"
  yaml_dump :: "nat \<Rightarrow> memory \<Rightarrow> yaml \<Rightarrow> string"

text \<open>
  Everything \<open>onStart\<close> can change: the process environment, the file tree, whether
  an observer is subscribed and the events it has received, the calls made to the
  collaborators, and the ports reported as taken without stopping the run.
\<close>

record World =
  env :: "string \<rightharpoonup> string"
  fs :: FileSystem
  observer :: bool
  events :: "EventType list"
  trace :: "Call list"
  advisories :: "nat list"

section \<open>Constants\<close>

definition NECESSARY_PORTS :: "nat list" where
  "NECESSARY_PORTS = [5551, 8545, 5600, 5433, 50211, 8082]"

definition OPTIONAL_PORTS :: "nat list" where
  "OPTIONAL_PORTS = [7546, 8080, 6379, 3000]"

definition APPLICATION_YML_RELATIVE_PATH :: string where
  "APPLICATION_YML_RELATIVE_PATH = ''../../compose-network/mirror-node/application.yml''"

section \<open>Effects\<close>

text \<open>
  A step returns the world it leaves behind together with the exception it threw, if
  any: what was done before a throw stays done.
\<close>

type_synonym outcome = "error option \<times> World"

definition andThen :: "outcome \<Rightarrow> (World \<Rightarrow> outcome) \<Rightarrow> outcome" where
  "andThen r f = (case r of (None, w) \<Rightarrow> f w | (Some e, w) \<Rightarrow> (Some e, w))"

definition called :: "Call \<Rightarrow> World \<Rightarrow> World" where
  "called c w = w\<lparr>trace := trace w @ [c]\<rparr>"

text \<open>\<open>subscribe(observer)\<close>.\<close>

definition subscribe :: "World \<Rightarrow> World" where
  "subscribe w = w\<lparr>observer := True\<rparr>"

text \<open>
  \<open>this.observer!.update(event)\<close>: the assertion \<open>!\<close> is erased by the compiler, so
  without a subscribed observer the call throws a \<open>TypeError\<close>.
\<close>

definition update :: "EventType \<Rightarrow> World \<Rightarrow> outcome" where
  "update event w =
     (if observer w then (None, w\<lparr>events := events w @ [event]\<rparr>) else (Some TypeError, w))"

text \<open>\<open>readFileSync(path).toString()\<close>: throws when there is no such file.\<close>

definition readFileSync :: "string \<Rightarrow> World \<Rightarrow> (error + string) \<times> World" where
  "readFileSync path w =
     (case files (fs w) path of
        None \<Rightarrow> (Inl (IOError path), called (ReadFileSync path) w)
      | Some content \<Rightarrow> (Inr content, called (ReadFileSync path) w))"

text \<open>
  \<open>writeFileSync(path, data)\<close> with the flag \<open>w\<close> (given in \<open>configureNodeProperties\<close>,
  the default in \<open>configureMirrorNodeProperties\<close>): the file is created or truncated
  and then holds \<open>data\<close>; the call throws where the host refuses the write.
\<close>

definition writeFileSync :: "Host \<Rightarrow> string \<Rightarrow> string \<Rightarrow> World \<Rightarrow> outcome" where
  "writeFileSync h path data w =
     (let w1 = called (WriteFileSync path data) w in
      if writeDenied h path then (Some (IOError path), w1)
      else (None, w1\<lparr>fs := (fs w1)\<lparr>files := (files (fs w1))(path \<mapsto> data)\<rparr>\<rparr>))"

section \<open>The environment variables\<close>

text \<open>\<open>process.env[variable.key] = variable.value\<close>.\<close>

definition setEnv :: "Configuration \<Rightarrow> World \<Rightarrow> World" where
  "setEnv variable w = w\<lparr>env := (env w)(key variable \<mapsto> value variable)\<rparr>"

definition showBool :: "bool \<Rightarrow> string" where
  "showBool b = (if b then ''true'' else ''false'')"

definition configureEnvVariables ::
  "CLIOptions \<Rightarrow> Configuration list \<Rightarrow> Configuration list option \<Rightarrow> World \<Rightarrow> World" where
  "configureEnvVariables opts imageTags envVariables w =
     (let w1 = fold setEnv imageTags w in
      case envVariables of
        None \<Rightarrow> w1
      | Some variables \<Rightarrow>
          let w2 = fold setEnv variables w1;
              relayLimitsDisabled = \<not> limits opts
          in if relayLimitsDisabled
             then w2\<lparr>env := (env w2)
                    (''RELAY_HBAR_RATE_LIMIT_TINYBAR'' \<mapsto> ''0'',
                     ''RELAY_HBAR_RATE_LIMIT_DURATION'' \<mapsto> ''0'',
                     ''RELAY_RATE_LIMIT_DISABLED'' \<mapsto> showBool relayLimitsDisabled)\<rparr>
             else w2)"

section \<open>The bootstrap properties\<close>

text \<open>One line \<open>key=value\<close> with its newline, appended to the text built so far.\<close>

definition propertyLine :: "Configuration \<Rightarrow> string" where
  "propertyLine property = key property @ ''='' @ value property @ [CHR 0x0A]"

definition appendProperty :: "Configuration \<Rightarrow> string \<Rightarrow> string" where
  "appendProperty property newProperties = newProperties @ propertyLine property"

definition bootstrapPropertiesPath :: "Host \<Rightarrow> CLIOptions \<Rightarrow> string" where
  "bootstrapPropertiesPath h opts =
     join h [workDir opts, ''compose-network/network-node/data/config/bootstrap.properties'']"

definition configureNodeProperties ::
  "Host \<Rightarrow> OriginalNodeConfiguration \<Rightarrow> CLIOptions \<Rightarrow> Configuration list option \<Rightarrow>
   World \<Rightarrow> outcome" where
  "configureNodeProperties h orig opts nodeProperties w =
     (let propertiesFilePath = bootstrapPropertiesPath h opts;
          newProperties = fold appendProperty (bootsrapProperties orig) []
      in case nodeProperties of
           None \<Rightarrow> (None, w)
         | Some overrides \<Rightarrow>
             writeFileSync h propertiesFilePath (fold appendProperty overrides newProperties) w)"

section \<open>The mirror node's application document\<close>

text \<open>
  \<open>obj.name\<close> for the property names this file navigates (\<open>hedera\<close>, \<open>mirror\<close>,
  \<open>importer\<close>, \<open>downloader\<close>, \<open>monitor\<close>; none is an index or a built-in property of
  an array or of a primitive): reading a property of \<open>null\<close> or \<open>undefined\<close> throws,
  a plain object without the key gives \<open>undefined\<close>, and so does anything that is
  not a plain object.
\<close>

fun getProp :: "memory \<Rightarrow> yaml \<Rightarrow> string \<Rightarrow> error + yaml" where
  "getProp m YNull name = Inl TypeError"
| "getProp m (YScalar s) name = Inr YNull"
| "getProp m (YRef a) name =
     (case m a of
        Some (YMap entries) \<Rightarrow>
          (case map_of entries name of None \<Rightarrow> Inr YNull | Some v \<Rightarrow> Inr v)
      | _ \<Rightarrow> Inr YNull)"

text \<open>
  \<open>obj.name = v\<close> in strict mode, for the property names this file assigns
  (\<open>dataPath\<close>, \<open>sources\<close>, \<open>local\<close>, \<open>nodes\<close>): it throws on \<open>null\<close>, \<open>undefined\<close>
  and on a primitive; a plain object gets the key, in place (where it has the key,
  at the end otherwise); an array or another object takes the property without its
  serialized form changing. The object is changed where it lives: the result is the
  memory after the assignment.
\<close>

fun setProp :: "memory \<Rightarrow> yaml \<Rightarrow> string \<Rightarrow> yaml \<Rightarrow> error + memory" where
  "setProp m YNull name v = Inl TypeError"
| "setProp m (YScalar s) name v = Inl TypeError"
| "setProp m (YRef a) name v =
     (case m a of
        Some (YMap entries) \<Rightarrow> Inr (m(a \<mapsto> YMap (AList.update name v entries)))
      | _ \<Rightarrow> Inr m)"

text \<open>
  The assignment \<open>obj.p\<^sub>1. \<dots> .p\<^sub>n.name = v\<close>: the memory after it, or the
  \<open>TypeError\<close> it throws.
\<close>

fun assign :: "string list \<Rightarrow> string \<Rightarrow> yaml \<Rightarrow> memory \<Rightarrow> yaml \<Rightarrow> error + memory" where
  "assign [] name v m obj = setProp m obj name v"
| "assign (p # ps) name v m obj =
     (case getProp m obj p of
        Inl e \<Rightarrow> Inl e
      | Inr child \<Rightarrow> assign ps name v m child)"

definition applicationYmlPath :: "Host \<Rightarrow> CLIOptions \<Rightarrow> string" where
  "applicationYmlPath h opts =
     join h [workDir opts, ''compose-network/mirror-node/application.yml'']"

definition RELAY_HEDERA_NETWORK_VALUE :: string where
  \<open>RELAY_HEDERA_NETWORK_VALUE =
     ''{"network-node:50211":"0.0.3","network-node-1:50211":"0.0.4","network-node-2:50211":"0.0.5","network-node-3:50211":"0.0.6"}''\<close>

text \<open>The two assignments made in turbo mode.\<close>

definition turboAssignments ::
  "OriginalNodeConfiguration \<Rightarrow> memory \<Rightarrow> yaml \<Rightarrow> error + memory" where
  "turboAssignments orig m application =
     (case assign [''hedera'', ''mirror'', ''importer''] ''dataPath''
             (turboNodeProperties_dataPath orig) m application of
        Inl e \<Rightarrow> Inl e
      | Inr m1 \<Rightarrow>
          assign [''hedera'', ''mirror'', ''importer'', ''downloader''] ''sources''
            (turboNodeProperties_sources orig) m1 application)"

text \<open>
  \<open>configureMirrorNodeProperties\<close>. The loader builds the document's objects next
  to those of the imported template; the assignments change them in place, one
  statement after the other; the memory is local to the call, and what leaves it is
  the serialized text handed to the write.
\<close>

definition configureMirrorNodeProperties ::
  "Host \<Rightarrow> OriginalNodeConfiguration \<Rightarrow> CLIOptions \<Rightarrow> World \<Rightarrow> outcome" where
  "configureMirrorNodeProperties h orig opts w =
     (let turboMode = \<not> fullMode opts;
          debugMode = enableDebug opts;
          multi = multiNode opts;
          propertiesFilePath = applicationYmlPath h opts
      in case readFileSync propertiesFilePath w of
        (Inl e, w1) \<Rightarrow> (Some e, w1)
      | (Inr text, w1) \<Rightarrow>
      (case yaml_load h text (objects orig) of
        Inl e \<Rightarrow> (Some e, w1)
      | Inr (application, m) \<Rightarrow>
      (case (if turboMode then turboAssignments orig m application else Inr m) of
        Inl e \<Rightarrow> (Some e, w1)
      | Inr m1 \<Rightarrow>
      (case (if debugMode
             then assign [''hedera'', ''mirror'', ''importer'', ''downloader''] ''local''
                    (local orig) m1 application
             else Inr m1) of
        Inl e \<Rightarrow> (Some e, w1)
      | Inr m2 \<Rightarrow>
      (case (if multi
             then (case assign [''hedera'', ''mirror'', ''monitor''] ''nodes''
                          (multiNodeProperties orig) m2 application of
                     Inl e \<Rightarrow> Inl e
                   | Inr m3 \<Rightarrow>
                       Inr (m3,
                            w1\<lparr>env := (env w1)(''RELAY_HEDERA_NETWORK'' \<mapsto> RELAY_HEDERA_NETWORK_VALUE)\<rparr>))
             else Inr (m2, w1)) of
        Inl e \<Rightarrow> (Some e, w1)
      | Inr (m3, w2) \<Rightarrow>
          writeFileSync h propertiesFilePath (yaml_dump h 256 m3 application) w2)))))"

section \<open>The working directory\<close>

text \<open>
  The object literal \<open>configFiles\<close> with its three computed keys: a key that is
  written twice keeps its first position and takes the later value.
\<close>

definition configFiles :: "Host \<Rightarrow> CLIOptions \<Rightarrow> (string \<times> string) list" where
  "configFiles h opts =
     (let configDirSource =
            join h [dirname h, ''../../compose-network/network-node/data/config/''];
          configPathMirrorNodeSource = join h [dirname h, APPLICATION_YML_RELATIVE_PATH];
          recordParserSource = join h [dirname h, ''../../src/services/record-parser'']
      in AList.update recordParserSource (workDir opts @ ''/services/record-parser'')
           (AList.update configPathMirrorNodeSource
              (workDir opts @ ''/compose-network/mirror-node/application.yml'')
              (AList.update configDirSource
                 (workDir opts @ ''/compose-network/network-node/data/config'') [])))"

definition prepareWorkDirectory :: "Host \<Rightarrow> CLIOptions \<Rightarrow> World \<Rightarrow> outcome" where
  "prepareWorkDirectory h opts w =
     (let w1 = called (CreateEphemeralDirectories (workDir opts)) w in
      case createEphemeralDirectories h (workDir opts) (fs w1) of
        (Some e, fs1) \<Rightarrow> (Some e, w1\<lparr>fs := fs1\<rparr>)
      | (None, fs1) \<Rightarrow>
          (let w2 = called (CopyPaths (configFiles h opts)) (w1\<lparr>fs := fs1\<rparr>) in
           case copyPaths h (configFiles h opts) (fs w2) of
             (Some e, fs2) \<Rightarrow> (Some e, w2\<lparr>fs := fs2\<rparr>)
           | (None, fs2) \<Rightarrow> (None, w2\<lparr>fs := fs2\<rparr>)))"

section \<open>The catalog and the port scan\<close>

text \<open>
  Modelled from the spec: \<open>ConfigurationData.getSelectedConfigurationData\<close> is not
  in the source files. The spec gives its interface,
  \<open>getSelectedConfigurationData(network) -> {imageTagConfiguration, envConfiguration?,
  nodeConfiguration?}\<close>, and says that an unknown network identifier is fatal and
  surfaced immediately: the lookup returns the catalog's entry and fails when the
  catalog has none.
\<close>

definition getSelectedConfigurationData ::
  "(string \<rightharpoonup> NetworkConfiguration) \<Rightarrow> string \<Rightarrow> error + NetworkConfiguration" where
  "getSelectedConfigurationData table name =
     (case table name of None \<Rightarrow> Inl (UnrecognizedNetwork name) | Some entry \<Rightarrow> Inr entry)"

text \<open>
  Modelled from the spec: \<open>DockerService.isPortInUse\<close> is not in the source files.
  The spec says: scan the given ports; a necessary port in use is fatal; an optional
  port in use is advisory only, it is logged and the run continues. The scan follows
  the list; it returns the ports it logged and the failure, if any.
\<close>

fun isPortInUse :: "(nat \<Rightarrow> bool) \<Rightarrow> nat list \<Rightarrow> error option \<times> nat list" where
  "isPortInUse busy [] = (None, [])"
| "isPortInUse busy (port # ports) =
     (if busy port \<and> port \<in> set OPTIONAL_PORTS
      then (case isPortInUse busy ports of (r, logged) \<Rightarrow> (r, port # logged))
      else if busy port \<and> port \<in> set NECESSARY_PORTS
      then (Some (PortInUse port), [])
      else isPortInUse busy ports)"

section \<open>The Bring-up phase\<close>

definition workDirConfiguration :: "Host \<Rightarrow> CLIOptions \<Rightarrow> Configuration list" where
  "workDirConfiguration h opts =
     [\<lparr>key = ''NETWORK_NODE_LOGS_ROOT_PATH'',
       value = join h [workDir opts, ''network-logs'', ''node'']\<rparr>,
      \<lparr>key = ''APPLICATION_CONFIG_PATH'',
       value = join h [workDir opts, ''compose-network'', ''network-node'', ''data'', ''config'']\<rparr>,
      \<lparr>key = ''MIRROR_NODE_CONFIG_PATH'', value = workDir opts\<rparr>,
      \<lparr>key = ''RECORD_PARSER_ROOT_PATH'',
       value = join h [workDir opts, ''services'', ''record-parser'']\<rparr>]"

text \<open>
  The second half of \<open>onStart\<close> (lines 113 to 128), which runs once the host is
  found ready: the working directory, the environment, the two configuration files
  and the \<open>Finish\<close> event.
\<close>

definition materialize ::
  "Host \<Rightarrow> OriginalNodeConfiguration \<Rightarrow> CLIOptions \<Rightarrow> NetworkConfiguration \<Rightarrow> World \<Rightarrow> outcome" where
  "materialize h orig opts configurationData w =
     andThen (prepareWorkDirectory h opts w)
       (\<lambda>w1.
          let variables =
                (case envConfiguration configurationData of
                   None \<Rightarrow> [] | Some catalogVariables \<Rightarrow> catalogVariables)
                @ workDirConfiguration h opts;
              w2 = configureEnvVariables opts
                     (imageTagConfiguration configurationData) (Some variables) w1
          in andThen
               (configureNodeProperties h orig opts
                  (case nodeConfiguration configurationData of
                     None \<Rightarrow> None | Some node \<Rightarrow> properties node) w2)
               (\<lambda>w3. andThen (configureMirrorNodeProperties h orig opts w3)
                        (update Finish)))"

text \<open>
  \<open>onStart\<close>. It has no handler: an exception of a collaborator leaves it as it
  is, with everything done so far in place.
\<close>

definition onStart ::
  "Host \<Rightarrow> OriginalNodeConfiguration \<Rightarrow> CLIOptions \<Rightarrow> World \<Rightarrow> outcome" where
  "onStart h orig opts w =
     (case getSelectedConfigurationData (catalog h) (network opts) of
        Inl e \<Rightarrow> (Some e, w)
      | Inr configurationData \<Rightarrow>
          (let w1 = called IsCorrectDockerComposeVersion w;
               isCorrectVersion = isCorrectDockerComposeVersion h;
               w2 = called CheckDocker w1;
               isDockerStarted = checkDocker h;
               w3 = called (CheckDockerResources (multiNode opts)) w2;
               dockerHasEnoughResources = checkDockerResources h (multiNode opts)
           in if \<not> (isCorrectVersion \<and> isDockerStarted \<and> dockerHasEnoughResources)
              then update UnresolvableError w3
              else
                (let w4 = called (IsPortInUse (NECESSARY_PORTS @ OPTIONAL_PORTS)) w3 in
                 case isPortInUse (portBusy h) (NECESSARY_PORTS @ OPTIONAL_PORTS) of
                   (Some e, logged) \<Rightarrow> (Some e, w4\<lparr>advisories := advisories w4 @ logged\<rparr>)
                 | (None, logged) \<Rightarrow>
                     materialize h orig opts configurationData
                       (w4\<lparr>advisories := advisories w4 @ logged\<rparr>))))"

section \<open>Reading the document\<close>

text \<open>
  The value of a key of the plain object at an address, and whether there is a
  plain object at an address.
\<close>

definition entry :: "memory \<Rightarrow> nat \<Rightarrow> string \<Rightarrow> yaml option" where
  "entry m a name = (case m a of Some (YMap entries) \<Rightarrow> map_of entries name | _ \<Rightarrow> None)"

definition plainObject :: "memory \<Rightarrow> nat \<Rightarrow> bool" where
  "plainObject m a = (case m a of Some (YMap entries) \<Rightarrow> True | _ \<Rightarrow> False)"

text \<open>
  The value under a path of keys, from a value on, where every step goes through a
  plain object; \<open>None\<close> where there is no such path.
\<close>

fun lookupPath :: "memory \<Rightarrow> string list \<Rightarrow> yaml \<Rightarrow> yaml option" where
  "lookupPath m [] obj = Some obj"
| "lookupPath m (p # ps) (YRef a) =
     (case entry m a p of None \<Rightarrow> None | Some child \<Rightarrow> lookupPath m ps child)"
| "lookupPath m (p # ps) obj = None"

definition mapAt :: "memory \<Rightarrow> string list \<Rightarrow> yaml \<Rightarrow> bool" where
  "mapAt m ps obj =
     (case lookupPath m ps obj of Some (YRef a) \<Rightarrow> plainObject m a | _ \<Rightarrow> False)"

text \<open>
  The spec's description of the mutation: each mode contributes its assignments, by
  its own flag alone, and the assignments of all enabled modes are made one after
  the other. An assignment is the path of the object assigned into, the key and the
  value.
\<close>

type_synonym assignment = "string list \<times> string \<times> yaml"

definition target :: "assignment \<Rightarrow> string list" where
  "target t = fst t @ [fst (snd t)]"

definition turboTargets :: "OriginalNodeConfiguration \<Rightarrow> assignment list" where
  "turboTargets orig =
     [([''hedera'', ''mirror'', ''importer''], ''dataPath'', turboNodeProperties_dataPath orig),
      ([''hedera'', ''mirror'', ''importer'', ''downloader''], ''sources'',
       turboNodeProperties_sources orig)]"

definition debugTargets :: "OriginalNodeConfiguration \<Rightarrow> assignment list" where
  "debugTargets orig =
     [([''hedera'', ''mirror'', ''importer'', ''downloader''], ''local'', local orig)]"

definition multiNodeTargets :: "OriginalNodeConfiguration \<Rightarrow> assignment list" where
  "multiNodeTargets orig =
     [([''hedera'', ''mirror'', ''monitor''], ''nodes'', multiNodeProperties orig)]"

definition enabledAssignments :: "OriginalNodeConfiguration \<Rightarrow> CLIOptions \<Rightarrow> assignment list" where
  "enabledAssignments orig opts =
     (if fullMode opts then [] else turboTargets orig)
     @ (if enableDebug opts then debugTargets orig else [])
     @ (if multiNode opts then multiNodeTargets orig else [])"

fun assignAll :: "assignment list \<Rightarrow> memory \<Rightarrow> yaml \<Rightarrow> error + memory" where
  "assignAll [] m obj = Inr m"
| "assignAll ((ps, name, v) # rest) m obj =
     (case assign ps name v m obj of Inl e \<Rightarrow> Inl e | Inr m' \<Rightarrow> assignAll rest m' obj)"

text \<open>
  The document has the sections that the enabled assignments go through, each a
  plain object, as the shipped \<open>application.yml\<close> has.
\<close>

definition hasSections ::
  "OriginalNodeConfiguration \<Rightarrow> CLIOptions \<Rightarrow> memory \<Rightarrow> yaml \<Rightarrow> bool" where
  "hasSections orig opts m application =
     list_all (\<lambda>t. mapAt m (fst t) application) (enabledAssignments orig opts)"



definition usesAssignedKey :: "assignment list \<Rightarrow> string list \<Rightarrow> bool" where
  "usesAssignedKey ts q = list_ex (\<lambda>t. fst (snd t) \<in> set q) ts"

text \<open>The text of the properties file for a list of entries.\<close>

definition propertiesText :: "Configuration list \<Rightarrow> string" where
  "propertiesText entries = concat (map propertyLine entries)"

section \<open>A host to run the phase on\<close>

text \<open>
  \<open>path.join\<close> of a POSIX host: the non-empty arguments joined by a slash and
  normalized (empty and \<open>.\<close> segments dropped, \<open>..\<close> taking back the segment
  before it, a trailing slash kept).
\<close>

fun splitSlash :: "string \<Rightarrow> string \<Rightarrow> string list" where
  "splitSlash [] segment = [segment]"
| "splitSlash (c # cs) segment =
     (if c = CHR ''/'' then segment # splitSlash cs [] else splitSlash cs (segment @ [c]))"

fun normalizeSegments :: "bool \<Rightarrow> string list \<Rightarrow> string list \<Rightarrow> string list" where
  "normalizeSegments allowAboveRoot [] res = res"
| "normalizeSegments allowAboveRoot (s # ss) res =
     (if s = [] \<or> s = ''.'' then normalizeSegments allowAboveRoot ss res
      else if s = ''..'' then
        (if res \<noteq> [] \<and> last res \<noteq> ''..''
         then normalizeSegments allowAboveRoot ss (butlast res)
         else if allowAboveRoot then normalizeSegments allowAboveRoot ss (res @ [''..''])
         else normalizeSegments allowAboveRoot ss res)
      else normalizeSegments allowAboveRoot ss (res @ [s]))"

fun joinSlash :: "string list \<Rightarrow> string" where
  "joinSlash [] = []"
| "joinSlash [s] = s"
| "joinSlash (s # ss) = s @ ''/'' @ joinSlash ss"

definition posixNormalize :: "string \<Rightarrow> string" where
  "posixNormalize path =
     (if path = [] then ''.''
      else
        (let isAbsolute = (hd path = CHR ''/'');
             trailingSeparator = (last path = CHR ''/'');
             normalized = joinSlash (normalizeSegments (\<not> isAbsolute) (splitSlash path []) [])
         in if normalized = [] then (if isAbsolute then ''/'' else if trailingSeparator then ''./'' else ''.'')
            else (if isAbsolute then ''/'' else []) @ normalized
                 @ (if trailingSeparator then ''/'' else [])))"

definition posixJoin :: "string list \<Rightarrow> string" where
  "posixJoin args =
     (let joined = joinSlash (filter (\<lambda>arg. arg \<noteq> []) args)
      in if joined = [] then ''.'' else posixNormalize joined)"

text \<open>
  The two file-system utilities of the host: the first makes the directories of the
  working directory, the second copies each source onto its destination, a regular
  file as it is and a directory with the files below it; a source that does not
  exist is an error.
\<close>

definition ephemeralDirectories :: "string \<Rightarrow> FileSystem \<Rightarrow> error option \<times> FileSystem" where
  "ephemeralDirectories root tree =
     (None, tree\<lparr>dirs := dirs tree \<union> {root, root @ ''/network-logs'', root @ ''/services''}\<rparr>)"

fun stripPrefix :: "string \<Rightarrow> string \<Rightarrow> string option" where
  "stripPrefix [] path = Some path"
| "stripPrefix (c # cs) [] = None"
| "stripPrefix (c # cs) (d # ds) = (if c = d then stripPrefix cs ds else None)"

definition withoutTrailingSlash :: "string \<Rightarrow> string" where
  "withoutTrailingSlash path = (if path \<noteq> [] \<and> last path = CHR ''/'' then butlast path else path)"

definition copyPath :: "string \<times> string \<Rightarrow> FileSystem \<Rightarrow> FileSystem" where
  "copyPath pair tree =
     (let source = withoutTrailingSlash (fst pair); destination = snd pair
      in case files tree source of
           Some content \<Rightarrow> tree\<lparr>files := (files tree)(destination \<mapsto> content)\<rparr>
         | None \<Rightarrow>
             tree\<lparr>dirs := insert destination (dirs tree),
                  files := (\<lambda>path.
                    case stripPrefix (destination @ ''/'') path of
                      None \<Rightarrow> files tree path
                    | Some below \<Rightarrow>
                        (case files tree (source @ ''/'' @ below) of
                           None \<Rightarrow> files tree path
                         | Some content \<Rightarrow> Some content))\<rparr>)"

fun copyAll :: "(string \<times> string) list \<Rightarrow> FileSystem \<Rightarrow> error option \<times> FileSystem" where
  "copyAll [] tree = (None, tree)"
| "copyAll (pair # pairs) tree =
     (let source = withoutTrailingSlash (fst pair)
      in if files tree source = None \<and> source \<notin> dirs tree then (Some (IOError source), tree)
         else copyAll pairs (copyPath pair tree))"

text \<open>
  Three documents and the objects the loader builds for them: the shipped template;
  a document whose \<open>backup\<close> section is an alias of its \<open>importer\<close> section; and
  a document without a \<open>monitor\<close> section.
\<close>

definition shippedApplicationText :: string where
  "shippedApplicationText =
     ''hedera: {mirror: {importer: {dataPath: ./data, downloader: {bucketName: hedera-streams}}, monitor: {nodes: []}, rest: {port: 5551}}}''"

definition shippedObjects :: "(nat \<times> yamlObject) list" where
  "shippedObjects =
     [(0, YMap [(''hedera'', YRef 1)]),
      (1, YMap [(''mirror'', YRef 2)]),
      (2, YMap [(''importer'', YRef 3), (''monitor'', YRef 5), (''rest'', YRef 7)]),
      (3, YMap [(''dataPath'', YScalar ''./data''), (''downloader'', YRef 4)]),
      (4, YMap [(''bucketName'', YScalar ''hedera-streams'')]),
      (5, YMap [(''nodes'', YRef 6)]),
      (6, YSeq []),
      (7, YMap [(''port'', YScalar ''5551'')])]"

definition aliasedApplicationText :: string where
  "aliasedApplicationText =
     ''hedera: {mirror: {importer: &x {dataPath: ./data, downloader: {bucketName: hedera-streams}}, backup: *x, monitor: {nodes: []}}}''"

definition aliasedObjects :: "(nat \<times> yamlObject) list" where
  "aliasedObjects =
     [(0, YMap [(''hedera'', YRef 1)]),
      (1, YMap [(''mirror'', YRef 2)]),
      (2, YMap [(''importer'', YRef 3), (''backup'', YRef 3), (''monitor'', YRef 5)]),
      (3, YMap [(''dataPath'', YScalar ''./data''), (''downloader'', YRef 4)]),
      (4, YMap [(''bucketName'', YScalar ''hedera-streams'')]),
      (5, YMap [(''nodes'', YRef 6)]),
      (6, YSeq [])]"

definition bareApplicationText :: string where
  "bareApplicationText =
     ''hedera: {mirror: {importer: {dataPath: ./data, downloader: {bucketName: hedera-streams}}}}''"

definition bareObjects :: "(nat \<times> yamlObject) list" where
  "bareObjects =
     [(0, YMap [(''hedera'', YRef 1)]),
      (1, YMap [(''mirror'', YRef 2)]),
      (2, YMap [(''importer'', YRef 3)]),
      (3, YMap [(''dataPath'', YScalar ''./data''), (''downloader'', YRef 4)]),
      (4, YMap [(''bucketName'', YScalar ''hedera-streams'')])]"

definition demoLoad :: "string \<Rightarrow> memory \<Rightarrow> error + yaml \<times> memory" where
  "demoLoad text m =
     (if text = shippedApplicationText then Inr (YRef 0, m ++ map_of shippedObjects)
      else if text = aliasedApplicationText then Inr (YRef 0, m ++ map_of aliasedObjects)
      else if text = bareApplicationText then Inr (YRef 0, m ++ map_of bareObjects)
      else Inl YAMLException)"

text \<open>
  A serializer: what the root reaches, in one line, an object as often as it is
  reached, down to a fixed depth.
\<close>

fun showYaml :: "nat \<Rightarrow> memory \<Rightarrow> yaml \<Rightarrow> string" where
  "showYaml 0 m v = ''...''"
| "showYaml (Suc depth) m YNull = ''null''"
| "showYaml (Suc depth) m (YScalar s) = s"
| "showYaml (Suc depth) m (YRef a) =
     (case m a of
        None \<Rightarrow> ''?''
      | Some (YOther s) \<Rightarrow> s
      | Some (YSeq xs) \<Rightarrow> ''['' @ concat (map (\<lambda>x. showYaml depth m x @ '','') xs) @ '']''
      | Some (YMap entries) \<Rightarrow>
          ''{'' @ concat (map (\<lambda>e. fst e @ '':'' @ showYaml depth m (snd e) @ '','') entries)
          @ ''}'')"

definition demoDump :: "nat \<Rightarrow> memory \<Rightarrow> yaml \<Rightarrow> string" where
  "demoDump lineWidth m document = showYaml 8 m document"

text \<open>
  Two catalog entries: one with environment variables and node properties, one with
  image tags only.
\<close>

definition demoLocal :: NetworkConfiguration where
  "demoLocal =
     \<lparr>imageTagConfiguration = [\<lparr>key = ''NETWORK_NODE_IMAGE_TAG'', value = ''0.49.7''\<rparr>],
      envConfiguration = Some
        [\<lparr>key = ''RELAY_RATE_LIMIT_DISABLED'', value = ''false''\<rparr>,
         \<lparr>key = ''NETWORK_NODE_LOGS_ROOT_PATH'', value = ''./network-logs/node''\<rparr>],
      nodeConfiguration = Some
        \<lparr>properties = Some [\<lparr>key = ''contracts.chainId'', value = ''298''\<rparr>]\<rparr>\<rparr>"

definition demoBare :: NetworkConfiguration where
  "demoBare =
     \<lparr>imageTagConfiguration = [\<lparr>key = ''NETWORK_NODE_IMAGE_TAG'', value = ''0.49.7''\<rparr>],
      envConfiguration = None,
      nodeConfiguration = None\<rparr>"

definition demoCatalog :: "string \<rightharpoonup> NetworkConfiguration" where
  "demoCatalog = [''local'' \<mapsto> demoLocal, ''bare'' \<mapsto> demoBare]"

definition demoHost :: Host where
  "demoHost =
     \<lparr>dirname = ''/app/build/state'',
      join = posixJoin,
      catalog = demoCatalog,
      isCorrectDockerComposeVersion = True,
      checkDocker = True,
      checkDockerResources = (\<lambda>multi. True),
      portBusy = (\<lambda>port. port = 8080),
      createEphemeralDirectories = ephemeralDirectories,
      copyPaths = copyAll,
      writeDenied = (\<lambda>path. False),
      yaml_load = demoLoad,
      yaml_dump = demoDump\<rparr>"

definition demoOriginal :: OriginalNodeConfiguration where
  "demoOriginal =
     \<lparr>bootsrapProperties = [\<lparr>key = ''ledger.id'', value = ''0x03''\<rparr>],
      turboNodeProperties_dataPath = YScalar ''./turbo'',
      turboNodeProperties_sources = YRef 100,
      local = YRef 102,
      multiNodeProperties = YRef 103,
      objects =
        [100 \<mapsto> YSeq [YRef 101],
         101 \<mapsto> YMap [(''type'', YScalar ''LOCAL_FILE'')],
         102 \<mapsto> YMap [(''enabled'', YScalar ''true'')],
         103 \<mapsto> YSeq [YRef 104],
         104 \<mapsto> YMap [(''host'', YScalar ''network-node'')]]\<rparr>"

definition demoOptions :: CLIOptions where
  "demoOptions =
     \<lparr>network = ''local'', workDir = ''/work'', host = ''127.0.0.1'', devMode = False,
      fullMode = True, multiNode = False, limits = False, enableDebug = False\<rparr>"

text \<open>
  The installation with its three sources, and a working directory that still holds
  the properties file of an earlier run.
\<close>

definition demoTree :: FileSystem where
  "demoTree =
     \<lparr>dirs = {''/app/compose-network/network-node/data/config'', ''/app/src/services/record-parser''},
      files =
        [''/app/compose-network/network-node/data/config/bootstrap.properties'' \<mapsto> ''shipped=1'',
         ''/app/compose-network/mirror-node/application.yml'' \<mapsto> shippedApplicationText,
         ''/work/compose-network/network-node/data/config/bootstrap.properties'' \<mapsto> ''earlier=1'']\<rparr>"

definition demoWorld :: World where
  "demoWorld =
     \<lparr>env = Map.empty, fs = demoTree, observer = True, events = [], trace = [], advisories = []\<rparr>"

text \<open>The working directory as the copy leaves it, with nothing else around.\<close>

definition demoPrepared :: World where
  "demoPrepared =
     \<lparr>env = Map.empty,
      fs = \<lparr>dirs = {''/work''},
            files = [''/work/compose-network/mirror-node/application.yml'' \<mapsto> shippedApplicationText,
                     ''/work/compose-network/network-node/data/config/bootstrap.properties''
                       \<mapsto> ''shipped=1'']\<rparr>,
      observer = True, events = [], trace = [], advisories = []\<rparr>"


definition demoWithoutMonitor :: World where
  "demoWithoutMonitor =
     \<lparr>env = Map.empty,
      fs = \<lparr>dirs = {''/work''},
            files = [''/work/compose-network/mirror-node/application.yml'' \<mapsto> bareApplicationText]\<rparr>,
      observer = True, events = [], trace = [], advisories = []\<rparr>"

section \<open>The environment after the export\<close>

lemma fold_setEnv_eq:
  "fold setEnv xs w = w\<lparr>env := fold (\<lambda>v e. e(key v \<mapsto> value v)) xs (env w)\<rparr>"
  by (induction xs arbitrary: w) (simp_all add: setEnv_def)

lemma fold_upd_notin:
  "k \<notin> key ` set xs \<Longrightarrow> fold (\<lambda>v e. e(key v \<mapsto> value v)) xs e k = e k"
  by (induction xs arbitrary: e) auto

lemma env_fold_setEnv_notin:
  "k \<notin> key ` set xs \<Longrightarrow> env (fold setEnv xs w) k = env w k"
  by (simp add: fold_setEnv_eq fold_upd_notin)

lemma frame_fold_setEnv:
  "fs (fold setEnv xs w) = fs w" "observer (fold setEnv xs w) = observer w"
  "events (fold setEnv xs w) = events w" "trace (fold setEnv xs w) = trace w"
  "advisories (fold setEnv xs w) = advisories w"
  by (simp_all add: fold_setEnv_eq)

lemma env_workDirConfiguration:
  "env (fold setEnv (workDirConfiguration h opts) w) =
     (env w)(''NETWORK_NODE_LOGS_ROOT_PATH'' \<mapsto> join h [workDir opts, ''network-logs'', ''node''],
             ''APPLICATION_CONFIG_PATH'' \<mapsto>
                join h [workDir opts, ''compose-network'', ''network-node'', ''data'', ''config''],
             ''MIRROR_NODE_CONFIG_PATH'' \<mapsto> workDir opts,
             ''RECORD_PARSER_ROOT_PATH'' \<mapsto> join h [workDir opts, ''services'', ''record-parser''])"
  by (simp add: workDirConfiguration_def setEnv_def)

text \<open>
  Claim C10. Called without a list of environment variables, \<open>configureEnvVariables\<close>
  sets the image tags and returns: the result is the world after the image tags
  alone, so a variable that is no image tag keeps its value, the three rate-limit
  variables included, whatever \<open>limits\<close> says. With a list, the list is exported
  after the image tags and, when limits are disabled, the three rate-limit variables
  are set to \<open>0\<close>, \<open>0\<close> and \<open>true\<close> after it.
\<close>

theorem configureEnvVariables_without_list:
  "configureEnvVariables opts tags None w = fold setEnv tags w
   \<and> (\<forall>name. name \<notin> key ` set tags \<longrightarrow>
         env (configureEnvVariables opts tags None w) name = env w name)
   \<and> configureEnvVariables opts tags (Some variables) w =
       (let w2 = fold setEnv variables (fold setEnv tags w)
        in if limits opts then w2
           else w2\<lparr>env := (env w2)(''RELAY_HBAR_RATE_LIMIT_TINYBAR'' \<mapsto> ''0'',
                                   ''RELAY_HBAR_RATE_LIMIT_DURATION'' \<mapsto> ''0'',
                                   ''RELAY_RATE_LIMIT_DISABLED'' \<mapsto> ''true'')\<rparr>)"
  by (simp add: configureEnvVariables_def Let_def showBool_def env_fold_setEnv_notin)

text \<open>
  With limits disabled and only an image tag to export, the variable that disables
  the rate limit stays unset without a list and is set with an empty one.
\<close>

theorem configureEnvVariables_without_list_witness:
  "\<not> limits demoOptions
   \<and> ''RELAY_RATE_LIMIT_DISABLED'' \<notin> key ` set [\<lparr>key = ''NETWORK_NODE_IMAGE_TAG'', value = ''0.49.7''\<rparr>]
   \<and> env (configureEnvVariables demoOptions
            [\<lparr>key = ''NETWORK_NODE_IMAGE_TAG'', value = ''0.49.7''\<rparr>] None demoWorld)
         ''RELAY_RATE_LIMIT_DISABLED'' = None
   \<and> env (configureEnvVariables demoOptions
            [\<lparr>key = ''NETWORK_NODE_IMAGE_TAG'', value = ''0.49.7''\<rparr>] (Some []) demoWorld)
         ''RELAY_RATE_LIMIT_DISABLED'' = Some ''true''"
  using configureEnvVariables_without_list
    [of demoOptions "[\<lparr>key = ''NETWORK_NODE_IMAGE_TAG'', value = ''0.49.7''\<rparr>]" demoWorld "[]"]
  by (simp add: demoOptions_def demoWorld_def Let_def setEnv_def)

text \<open>
  Claim C4. \<open>onStart\<close> always passes a list to \<open>configureEnvVariables\<close>: the
  catalog's variables, or none, followed by the four paths of the working directory.
  With limits disabled, whatever the image tags, the catalog's variables and the
  environment before, the three rate-limit variables hold \<open>0\<close>, \<open>0\<close> and \<open>true\<close>
  after the step.
\<close>

theorem rate_limits_forced_when_disabled:
  assumes "\<not> limits opts"
  shows "env (configureEnvVariables opts tags (Some (variables @ workDirConfiguration h opts)) w)
           ''RELAY_HBAR_RATE_LIMIT_TINYBAR'' = Some ''0''
       \<and> env (configureEnvVariables opts tags (Some (variables @ workDirConfiguration h opts)) w)
           ''RELAY_HBAR_RATE_LIMIT_DURATION'' = Some ''0''
       \<and> env (configureEnvVariables opts tags (Some (variables @ workDirConfiguration h opts)) w)
           ''RELAY_RATE_LIMIT_DISABLED'' = Some ''true''"
  using assms by (simp add: configureEnvVariables_def Let_def showBool_def)

text \<open>A catalog that sets the three variables to other values loses to the override.\<close>

theorem rate_limits_forced_when_disabled_witness:
  "\<not> limits demoOptions
   \<and> env (configureEnvVariables demoOptions []
            (Some ([\<lparr>key = ''RELAY_HBAR_RATE_LIMIT_TINYBAR'', value = ''11000000000''\<rparr>,
                    \<lparr>key = ''RELAY_HBAR_RATE_LIMIT_DURATION'', value = ''80000''\<rparr>,
                    \<lparr>key = ''RELAY_RATE_LIMIT_DISABLED'', value = ''false''\<rparr>]
                   @ workDirConfiguration demoHost demoOptions)) demoWorld)
         ''RELAY_HBAR_RATE_LIMIT_TINYBAR'' = Some ''0''
   \<and> env (configureEnvVariables demoOptions []
            (Some ([\<lparr>key = ''RELAY_HBAR_RATE_LIMIT_TINYBAR'', value = ''11000000000''\<rparr>,
                    \<lparr>key = ''RELAY_HBAR_RATE_LIMIT_DURATION'', value = ''80000''\<rparr>,
                    \<lparr>key = ''RELAY_RATE_LIMIT_DISABLED'', value = ''false''\<rparr>]
                   @ workDirConfiguration demoHost demoOptions)) demoWorld)
         ''RELAY_HBAR_RATE_LIMIT_DURATION'' = Some ''0''
   \<and> env (configureEnvVariables demoOptions []
            (Some ([\<lparr>key = ''RELAY_HBAR_RATE_LIMIT_TINYBAR'', value = ''11000000000''\<rparr>,
                    \<lparr>key = ''RELAY_HBAR_RATE_LIMIT_DURATION'', value = ''80000''\<rparr>,
                    \<lparr>key = ''RELAY_RATE_LIMIT_DISABLED'', value = ''false''\<rparr>]
                   @ workDirConfiguration demoHost demoOptions)) demoWorld)
         ''RELAY_RATE_LIMIT_DISABLED'' = Some ''true''"
proof -
  have off: "\<not> limits demoOptions"
    by (simp add: demoOptions_def)
  show ?thesis
    using off rate_limits_forced_when_disabled [OF off, of "[]"
      "[\<lparr>key = ''RELAY_HBAR_RATE_LIMIT_TINYBAR'', value = ''11000000000''\<rparr>,
        \<lparr>key = ''RELAY_HBAR_RATE_LIMIT_DURATION'', value = ''80000''\<rparr>,
        \<lparr>key = ''RELAY_RATE_LIMIT_DISABLED'', value = ''false''\<rparr>]" demoHost demoWorld]
    by simp
qed

section \<open>The properties file\<close>

lemma fold_appendProperty:
  "fold appendProperty xs acc = acc @ propertiesText xs"
  by (induction xs arbitrary: acc) (simp_all add: appendProperty_def propertiesText_def)

lemma configureNodeProperties_Some:
  "configureNodeProperties h orig opts (Some overrides) w =
     writeFileSync h (bootstrapPropertiesPath h opts)
       (propertiesText (bootsrapProperties orig @ overrides)) w"
  by (simp add: configureNodeProperties_def Let_def fold_appendProperty propertiesText_def)

lemma configureNodeProperties_None:
  "configureNodeProperties h orig opts None w = (None, w)"
  by (simp add: configureNodeProperties_def Let_def)


text \<open>
  Claim C5, as the code has it. Without node properties in the catalog entry the
  step returns before it writes: nothing changes, the file stays as the copy left
  it. With node properties (an empty list included) the step makes one write, of the
  base template's lines in order followed by the overrides' lines in order, duplicate
  keys kept; the step never reads the file, and where the host accepts the write the
  file holds exactly this text afterwards and no other file changes.
\<close>

theorem bootstrap_properties_written_with_overrides:
  "configureNodeProperties h orig opts None w = (None, w)
   \<and> configureNodeProperties h orig opts (Some overrides) w =
       writeFileSync h (bootstrapPropertiesPath h opts)
         (concat (map propertyLine (bootsrapProperties orig)) @ concat (map propertyLine overrides)) w
   \<and> (\<not> writeDenied h (bootstrapPropertiesPath h opts) \<longrightarrow>
        fst (configureNodeProperties h orig opts (Some overrides) w) = None
      \<and> files (fs (snd (configureNodeProperties h orig opts (Some overrides) w))) =
          (files (fs w))(bootstrapPropertiesPath h opts \<mapsto>
             concat (map propertyLine (bootsrapProperties orig)) @ concat (map propertyLine overrides)))"
  by (simp add: configureNodeProperties_Some configureNodeProperties_None propertiesText_def
      writeFileSync_def called_def Let_def)


theorem bootstrap_properties_written_with_overrides_witness:
  "\<not> writeDenied demoHost (bootstrapPropertiesPath demoHost demoOptions)
   \<and> fst (configureNodeProperties demoHost demoOriginal demoOptions
            (Some [\<lparr>key = ''contracts.chainId'', value = ''298''\<rparr>]) demoPrepared) = None
   \<and> files (fs (snd (configureNodeProperties demoHost demoOriginal demoOptions
            (Some [\<lparr>key = ''contracts.chainId'', value = ''298''\<rparr>]) demoPrepared)))
        ''/work/compose-network/network-node/data/config/bootstrap.properties''
      = Some ''ledger.id=0x03\<newline>contracts.chainId=298\<newline>''"
proof -
  have path: "bootstrapPropertiesPath demoHost demoOptions =
      ''/work/compose-network/network-node/data/config/bootstrap.properties''"
    by code_simp
  have allowed: "\<not> writeDenied demoHost (bootstrapPropertiesPath demoHost demoOptions)"
    by (simp add: demoHost_def)
  from allowed bootstrap_properties_written_with_overrides
      [of demoHost demoOriginal demoOptions demoPrepared
          "[\<lparr>key = ''contracts.chainId'', value = ''298''\<rparr>]"]
  have "fst (configureNodeProperties demoHost demoOriginal demoOptions
               (Some [\<lparr>key = ''contracts.chainId'', value = ''298''\<rparr>]) demoPrepared) = None
      \<and> files (fs (snd (configureNodeProperties demoHost demoOriginal demoOptions
               (Some [\<lparr>key = ''contracts.chainId'', value = ''298''\<rparr>]) demoPrepared))) =
          (files (fs demoPrepared))(bootstrapPropertiesPath demoHost demoOptions \<mapsto>
             concat (map propertyLine (bootsrapProperties demoOriginal))
             @ concat (map propertyLine [\<lparr>key = ''contracts.chainId'', value = ''298''\<rparr>]))"
    by blast
  then show ?thesis
    using allowed by (simp add: path propertyLine_def demoOriginal_def)
qed

text \<open>
  The claim as stated fails for a catalog entry without node properties: after the
  step the file still holds what the copy put there, not the base template's lines.
\<close>

theorem bootstrap_properties_untouched_without_overrides:
  "bootstrapPropertiesPath demoHost demoOptions =
     ''/work/compose-network/network-node/data/config/bootstrap.properties''
   \<and> files (fs (snd (configureNodeProperties demoHost demoOriginal demoOptions None demoPrepared)))
        ''/work/compose-network/network-node/data/config/bootstrap.properties''
      = Some ''shipped=1''
   \<and> propertiesText (bootsrapProperties demoOriginal) = ''ledger.id=0x03\<newline>''
   \<and> trace (snd (configureNodeProperties demoHost demoOriginal demoOptions None demoPrepared)) = []"
proof -
  have "bootstrapPropertiesPath demoHost demoOptions =
      ''/work/compose-network/network-node/data/config/bootstrap.properties''"
    by code_simp
  moreover have "propertiesText (bootsrapProperties demoOriginal) = ''ledger.id=0x03\<newline>''"
    by (simp add: propertiesText_def propertyLine_def demoOriginal_def)
  ultimately show ?thesis
    by (simp add: configureNodeProperties_None demoPrepared_def)
qed

section \<open>Assignments into the document\<close>

lemma lookupPath_append:
  "lookupPath m (ps @ qs) v =
     (case lookupPath m ps v of None \<Rightarrow> None | Some u \<Rightarrow> lookupPath m qs u)"
proof (induction ps arbitrary: v)
  case Nil
  show ?case by simp
next
  case (Cons p ps)
  show ?case by (cases v) (simp_all add: Cons.IH split: option.splits)
qed

lemma setProp_cases:
  assumes "setProp m (YRef a) name x = Inr m'"
  obtains entries where "m a = Some (YMap entries)"
      "m' = m(a \<mapsto> YMap (AList.update name x entries))"
    | "\<not> plainObject m a" "m' = m"
proof (cases "plainObject m a")
  case True
  then obtain entries where e: "m a = Some (YMap entries)"
    by (auto simp: plainObject_def split: option.splits yamlObject.splits)
  with assms have "m' = m(a \<mapsto> YMap (AList.update name x entries))"
    by simp
  with e show ?thesis by (rule that(1))
next
  case False
  with assms have "m' = m"
    by (auto simp: plainObject_def split: option.splits yamlObject.splits)
  with False show ?thesis by (rule that(2))
qed


lemma setProp_entry:
  "setProp m (YRef a) name x = Inr m' \<Longrightarrow> b \<noteq> a \<or> k \<noteq> name \<Longrightarrow> entry m' b k = entry m b k"
  by (erule setProp_cases) (auto simp: entry_def update_conv')

lemma setProp_plainObject:
  "setProp m (YRef a) name x = Inr m' \<Longrightarrow> plainObject m' b = plainObject m b"
  by (erule setProp_cases) (auto simp: plainObject_def)

lemma setProp_assigned:
  "plainObject m a \<Longrightarrow> \<exists>m'. setProp m (YRef a) name x = Inr m' \<and> entry m' a name = Some x"
proof -
  assume "plainObject m a"
  then obtain entries where "m a = Some (YMap entries)"
    by (auto simp: plainObject_def split: option.splits yamlObject.splits)
  then show ?thesis
    by (simp add: entry_def update_conv')
qed

lemma setProp_lookupPath:
  "setProp m (YRef a) name x = Inr m' \<Longrightarrow> name \<notin> set q \<Longrightarrow> lookupPath m' q u = lookupPath m q u"
proof (induction q arbitrary: u)
  case Nil
  show ?case by simp
next
  case (Cons p q)
  from Cons.prems have "\<And>b. entry m' b p = entry m b p"
    by (intro setProp_entry) auto
  with Cons show ?case
    by (cases u) (simp_all split: option.splits)
qed

lemma assign_shape:
  "assign ps name x m v = Inr m' \<Longrightarrow>
   \<exists>a. lookupPath m ps v = Some (YRef a) \<and> setProp m (YRef a) name x = Inr m'"
proof (induction ps arbitrary: v)
  case Nil
  then show ?case by (cases v) simp_all
next
  case (Cons p ps)
  from Cons.prems obtain child where
    g: "getProp m v p = Inr child" and r: "assign ps name x m child = Inr m'"
    by (auto split: sum.splits)
  from Cons.IH [OF r] obtain a where
    a: "lookupPath m ps child = Some (YRef a)" "setProp m (YRef a) name x = Inr m'"
    by blast
  have "lookupPath m (p # ps) v = lookupPath m ps child"
  proof (cases "child = YNull")
    case True
    with a show ?thesis by (cases ps) simp_all
  next
    case False
    with g show ?thesis
      by (cases v) (auto simp: entry_def split: option.splits yamlObject.splits)
  qed
  with a show ?case by auto
qed

lemma assign_succeeds:
  "mapAt m ps v \<Longrightarrow>
   \<exists>m' a. assign ps name x m v = Inr m' \<and> lookupPath m ps v = Some (YRef a)
          \<and> entry m' a name = Some x"
proof (induction ps arbitrary: v)
  case Nil
  then obtain a where "v = YRef a" "plainObject m a"
    by (cases v) (simp_all add: mapAt_def)
  with setProp_assigned [of m a name x] show ?case by auto
next
  case (Cons p ps)
  from Cons.prems obtain b child where
    v: "v = YRef b" and c: "entry m b p = Some child" and rest: "mapAt m ps child"
    by (cases v) (auto simp: mapAt_def split: option.splits)
  from c have "getProp m v p = Inr child"
    by (auto simp: v entry_def split: option.splits yamlObject.splits)
  with Cons.IH [OF rest] v c show ?case by auto
qed

lemma assignAll_lookupPath:
  "assignAll ts m root = Inr m' \<Longrightarrow> \<not> usesAssignedKey ts q \<Longrightarrow>
   lookupPath m' q u = lookupPath m q u"
proof (induction ts arbitrary: m)
  case Nil
  then show ?case by simp
next
  case (Cons t ts)
  obtain ps name x where t: "t = (ps, name, x)" by (cases t) auto
  from Cons.prems t obtain mid where
    s: "assign ps name x m root = Inr mid" and r: "assignAll ts mid root = Inr m'"
    by (auto split: sum.splits)
  from assign_shape [OF s] obtain a where "setProp m (YRef a) name x = Inr mid"
    by blast
  moreover from Cons.prems t have "name \<notin> set q" "\<not> usesAssignedKey ts q"
    by (simp_all add: usesAssignedKey_def)
  ultimately show ?case
    using Cons.IH [OF r] setProp_lookupPath by metis
qed




lemma assignAll_values:
  "list_all (\<lambda>t. mapAt m (fst t) root) ts \<Longrightarrow>
   (\<forall>t\<in>set ts. \<forall>u\<in>set ts. fst (snd t) \<notin> set (fst u)) \<Longrightarrow>
   distinct (map (\<lambda>t. fst (snd t)) ts) \<Longrightarrow>
   \<exists>m'. assignAll ts m root = Inr m' \<and>
         list_all (\<lambda>t. lookupPath m' (target t) root = Some (snd (snd t))) ts"
proof (induction ts arbitrary: m)
  case Nil
  then show ?case by simp
next
  case (Cons t ts)
  obtain ps name x where t: "t = (ps, name, x)" by (cases t) auto
  from Cons.prems(1) t have "mapAt m ps root" by simp
  from assign_succeeds [OF this, of name x] obtain mid a where
    s: "assign ps name x m root = Inr mid" and a: "lookupPath m ps root = Some (YRef a)"
    and e: "entry mid a name = Some x"
    by blast
  from assign_shape [OF s] obtain a' where sp: "setProp m (YRef a') name x = Inr mid"
    by blast
  have same: "lookupPath mid q root = lookupPath m q root" if "name \<notin> set q" for q
    using that by (rule setProp_lookupPath [OF sp])
  have "list_all (\<lambda>u. mapAt mid (fst u) root) ts"
    unfolding list_all_iff
  proof
    fix u assume u: "u \<in> set ts"
    with Cons.prems(1) have "mapAt m (fst u) root" by (simp add: list_all_iff)
    moreover from Cons.prems(2) u t have "name \<notin> set (fst u)" by auto
    ultimately show "mapAt mid (fst u) root"
      using same setProp_plainObject [OF sp]
      by (simp add: mapAt_def split: option.splits yaml.splits)
  qed
  from Cons.IH [OF this] Cons.prems obtain m' where
    r: "assignAll ts mid root = Inr m'" and
    vs: "list_all (\<lambda>t. lookupPath m' (target t) root = Some (snd (snd t))) ts"
    by auto
  from Cons.prems(2) t have "name \<notin> set ps" by auto
  with same a have "lookupPath mid ps root = Some (YRef a)" by simp
  with e have here: "lookupPath mid (ps @ [name]) root = Some x"
    by (simp add: lookupPath_append)
  have "\<not> usesAssignedKey ts (ps @ [name])"
    using Cons.prems(2,3) t by (auto simp: usesAssignedKey_def list_ex_iff)
  from assignAll_lookupPath [OF r this] here have "lookupPath m' (ps @ [name]) root = Some x"
    by simp
  with s r vs t show ?case
    by (simp add: target_def)
qed

lemma enabledAssignments_keys:
  "\<forall>t\<in>set (enabledAssignments orig opts). \<forall>u\<in>set (enabledAssignments orig opts).
     fst (snd t) \<notin> set (fst u)"
  by (cases "fullMode opts"; cases "enableDebug opts"; cases "multiNode opts")
     (simp_all add: enabledAssignments_def turboTargets_def debugTargets_def
        multiNodeTargets_def)

lemma enabledAssignments_distinct:
  "distinct (map (\<lambda>t. fst (snd t)) (enabledAssignments orig opts))"
  by (simp add: enabledAssignments_def turboTargets_def debugTargets_def multiNodeTargets_def)

lemma hasSections_values:
  "hasSections orig opts m application \<Longrightarrow>
   \<exists>m'. assignAll (enabledAssignments orig opts) m application = Inr m' \<and>
      list_all (\<lambda>t. lookupPath m' (target t) application = Some (snd (snd t)))
        (enabledAssignments orig opts)"
  unfolding hasSections_def
  by (rule assignAll_values [OF _ enabledAssignments_keys enabledAssignments_distinct])

lemma configureMirrorNodeProperties_assignAll:
  "configureMirrorNodeProperties h orig opts w =
     (case readFileSync (applicationYmlPath h opts) w of
        (Inl e, w1) \<Rightarrow> (Some e, w1)
      | (Inr text, w1) \<Rightarrow>
          (case yaml_load h text (objects orig) of
             Inl e \<Rightarrow> (Some e, w1)
           | Inr (application, m) \<Rightarrow>
               (case assignAll (enabledAssignments orig opts) m application of
                  Inl e \<Rightarrow> (Some e, w1)
                | Inr m' \<Rightarrow>
                    writeFileSync h (applicationYmlPath h opts) (yaml_dump h 256 m' application)
                      (if multiNode opts
                       then w1\<lparr>env := (env w1)(''RELAY_HEDERA_NETWORK'' \<mapsto> RELAY_HEDERA_NETWORK_VALUE)\<rparr>
                       else w1))))"
  by (simp add: configureMirrorNodeProperties_def enabledAssignments_def turboTargets_def
      debugTargets_def multiNodeTargets_def turboAssignments_def Let_def
      split: prod.splits sum.splits)


lemma mirror_run:
  assumes "files (fs w) (applicationYmlPath h opts) = Some text"
    and "yaml_load h text (objects orig) = Inr (application, loaded)"
  shows "configureMirrorNodeProperties h orig opts w =
      (case assignAll (enabledAssignments orig opts) loaded application of
         Inl e \<Rightarrow> (Some e, w\<lparr>trace := trace w @ [ReadFileSync (applicationYmlPath h opts)]\<rparr>)
       | Inr mutated \<Rightarrow>
           writeFileSync h (applicationYmlPath h opts) (yaml_dump h 256 mutated application)
             (if multiNode opts
              then w\<lparr>trace := trace w @ [ReadFileSync (applicationYmlPath h opts)],
                      env := (env w)(''RELAY_HEDERA_NETWORK'' \<mapsto> RELAY_HEDERA_NETWORK_VALUE)\<rparr>
              else w\<lparr>trace := trace w @ [ReadFileSync (applicationYmlPath h opts)]\<rparr>))"
  using assms
  by (simp add: configureMirrorNodeProperties_assignAll readFileSync_def called_def
      split: sum.splits)

lemma writeFileSync_accepted:
  "\<not> writeDenied h path \<Longrightarrow>
   fst (writeFileSync h path data w) = None
   \<and> files (fs (snd (writeFileSync h path data w))) path = Some data
   \<and> env (snd (writeFileSync h path data w)) = env w"
  by (simp add: writeFileSync_def called_def Let_def)

lemma mirror_written:
  assumes "files (fs w) (applicationYmlPath h opts) = Some text"
    and "yaml_load h text (objects orig) = Inr (application, loaded)"
    and "assignAll (enabledAssignments orig opts) loaded application = Inr mutated"
    and "\<not> writeDenied h (applicationYmlPath h opts)"
  shows "configureMirrorNodeProperties h orig opts w =
     (None, w\<lparr>trace := trace w @ [ReadFileSync (applicationYmlPath h opts),
                  WriteFileSync (applicationYmlPath h opts) (yaml_dump h 256 mutated application)],
              env := (if multiNode opts
                      then (env w)(''RELAY_HEDERA_NETWORK'' \<mapsto> RELAY_HEDERA_NETWORK_VALUE)
                      else env w),
              fs := (fs w)\<lparr>files := (files (fs w))
                       (applicationYmlPath h opts \<mapsto> yaml_dump h 256 mutated application)\<rparr>\<rparr>)"
  unfolding mirror_run [OF assms(1,2)] assms(3) using assms(4)
  by (simp add: writeFileSync_def called_def Let_def)

lemma env_writeFileSync: "env (snd (writeFileSync h path data w)) = env w"
  by (simp add: writeFileSync_def called_def Let_def)




lemma env_configureMirrorNodeProperties:
  "\<not> multiNode opts \<Longrightarrow> env (snd (configureMirrorNodeProperties h orig opts w)) = env w"
  by (simp add: configureMirrorNodeProperties_assignAll readFileSync_def writeFileSync_def
      called_def Let_def split: option.splits sum.splits prod.splits)

lemma env_configureMirrorNodeProperties_other:
  "name \<noteq> ''RELAY_HEDERA_NETWORK'' \<Longrightarrow>
   env (snd (configureMirrorNodeProperties h orig opts w)) name = env w name"
  by (simp add: configureMirrorNodeProperties_assignAll readFileSync_def writeFileSync_def
      called_def Let_def split: option.splits sum.splits prod.splits)

lemma nodes_untouched:
  "\<not> multiNode opts \<Longrightarrow>
   \<not> usesAssignedKey (enabledAssignments orig opts) [''hedera'', ''mirror'', ''monitor'', ''nodes'']"
  by (cases "fullMode opts"; cases "enableDebug opts")
     (simp_all add: usesAssignedKey_def enabledAssignments_def turboTargets_def debugTargets_def)

lemma nodes_assigned:
  "multiNode opts \<Longrightarrow>
   list_all (\<lambda>t. lookupPath mutated (target t) application = Some (snd (snd t)))
     (enabledAssignments orig opts) \<Longrightarrow>
   lookupPath mutated [''hedera'', ''mirror'', ''monitor'', ''nodes''] application =
     Some (multiNodeProperties orig)"
  by (simp add: enabledAssignments_def multiNodeTargets_def target_def)

lemma mirror_step_with_sections:
  "(\<not> multiNode opts \<longrightarrow> env (snd (configureMirrorNodeProperties h orig opts w)) = env w)
   \<and> (files (fs w) (applicationYmlPath h opts) = Some text
      \<and> yaml_load h text (objects orig) = Inr (application, loaded)
      \<and> hasSections orig opts loaded application \<longrightarrow>
      (\<exists>mutated.
          assignAll (enabledAssignments orig opts) loaded application = Inr mutated
        \<and> configureMirrorNodeProperties h orig opts w =
            writeFileSync h (applicationYmlPath h opts) (yaml_dump h 256 mutated application)
              (w\<lparr>trace := trace w @ [ReadFileSync (applicationYmlPath h opts)],
                 env := (if multiNode opts
                         then (env w)(''RELAY_HEDERA_NETWORK'' \<mapsto>
                                RELAY_HEDERA_NETWORK_VALUE)
                         else env w)\<rparr>)
        \<and> (if multiNode opts
           then lookupPath mutated [''hedera'', ''mirror'', ''monitor'', ''nodes''] application
                  = Some (multiNodeProperties orig)
              \<and> env (snd (configureMirrorNodeProperties h orig opts w))
                  = (env w)(''RELAY_HEDERA_NETWORK'' \<mapsto>
                      RELAY_HEDERA_NETWORK_VALUE)
           else lookupPath mutated [''hedera'', ''mirror'', ''monitor'', ''nodes''] application
                  = lookupPath loaded [''hedera'', ''mirror'', ''monitor'', ''nodes''] application)
        \<and> (\<not> writeDenied h (applicationYmlPath h opts) \<longrightarrow>
             fst (configureMirrorNodeProperties h orig opts w) = None
           \<and> files (fs (snd (configureMirrorNodeProperties h orig opts w)))
                (applicationYmlPath h opts) = Some (yaml_dump h 256 mutated application))))"
proof (intro conjI impI)
  assume "\<not> multiNode opts"
  then show "env (snd (configureMirrorNodeProperties h orig opts w)) = env w"
    by (rule env_configureMirrorNodeProperties)
next
  assume a: "files (fs w) (applicationYmlPath h opts) = Some text
      \<and> yaml_load h text (objects orig) = Inr (application, loaded)
      \<and> hasSections orig opts loaded application"
  then obtain mutated where
    all: "assignAll (enabledAssignments orig opts) loaded application = Inr mutated" and
    vs: "list_all (\<lambda>t. lookupPath mutated (target t) application = Some (snd (snd t)))
           (enabledAssignments orig opts)"
    using hasSections_values [of orig opts loaded application] by blast
  from a have read: "files (fs w) (applicationYmlPath h opts) = Some text"
    and loaded: "yaml_load h text (objects orig) = Inr (application, loaded)"
    by simp_all
  have run: "configureMirrorNodeProperties h orig opts w =
      writeFileSync h (applicationYmlPath h opts) (yaml_dump h 256 mutated application)
        (w\<lparr>trace := trace w @ [ReadFileSync (applicationYmlPath h opts)],
           env := (if multiNode opts
                   then (env w)(''RELAY_HEDERA_NETWORK'' \<mapsto>
                          RELAY_HEDERA_NETWORK_VALUE)
                   else env w)\<rparr>)"
    unfolding mirror_run [OF read loaded] all
    by simp
  have nodes: "if multiNode opts
     then lookupPath mutated [''hedera'', ''mirror'', ''monitor'', ''nodes''] application
            = Some (multiNodeProperties orig)
        \<and> env (snd (configureMirrorNodeProperties h orig opts w))
            = (env w)(''RELAY_HEDERA_NETWORK'' \<mapsto>
                RELAY_HEDERA_NETWORK_VALUE)
     else lookupPath mutated [''hedera'', ''mirror'', ''monitor'', ''nodes''] application
            = lookupPath loaded [''hedera'', ''mirror'', ''monitor'', ''nodes''] application"
  proof (cases "multiNode opts")
    case True
    with nodes_assigned [OF True vs] show ?thesis
      by (simp add: run env_writeFileSync)
  next
    case False
    with assignAll_lookupPath [OF all nodes_untouched [OF False]] show ?thesis
      by simp
  qed
  have written: "\<not> writeDenied h (applicationYmlPath h opts) \<longrightarrow>
       fst (configureMirrorNodeProperties h orig opts w) = None
     \<and> files (fs (snd (configureMirrorNodeProperties h orig opts w)))
          (applicationYmlPath h opts) = Some (yaml_dump h 256 mutated application)"
    unfolding run using writeFileSync_accepted by blast
  from all run nodes written
  show "\<exists>mutated.
          assignAll (enabledAssignments orig opts) loaded application = Inr mutated
        \<and> configureMirrorNodeProperties h orig opts w =
            writeFileSync h (applicationYmlPath h opts) (yaml_dump h 256 mutated application)
              (w\<lparr>trace := trace w @ [ReadFileSync (applicationYmlPath h opts)],
                 env := (if multiNode opts
                         then (env w)(''RELAY_HEDERA_NETWORK'' \<mapsto>
                                RELAY_HEDERA_NETWORK_VALUE)
                         else env w)\<rparr>)
        \<and> (if multiNode opts
           then lookupPath mutated [''hedera'', ''mirror'', ''monitor'', ''nodes''] application
                  = Some (multiNodeProperties orig)
              \<and> env (snd (configureMirrorNodeProperties h orig opts w))
                  = (env w)(''RELAY_HEDERA_NETWORK'' \<mapsto>
                      RELAY_HEDERA_NETWORK_VALUE)
           else lookupPath mutated [''hedera'', ''mirror'', ''monitor'', ''nodes''] application
                  = lookupPath loaded [''hedera'', ''mirror'', ''monitor'', ''nodes''] application)
        \<and> (\<not> writeDenied h (applicationYmlPath h opts) \<longrightarrow>
             fst (configureMirrorNodeProperties h orig opts w) = None
           \<and> files (fs (snd (configureMirrorNodeProperties h orig opts w)))
                (applicationYmlPath h opts) = Some (yaml_dump h 256 mutated application))"
    by blast
qed

text \<open>
  Claim C7, as the code has it. Without multi-node mode
  \<open>configureMirrorNodeProperties\<close> leaves the environment as it is, whatever else
  happens. When the document is read and loaded and has the sections that the
  enabled modes assign into, no assignment throws and the step hands the
  serialized document to the write; then, with multi-node mode, the monitor node
  list of that document is the multi-node template value and \<open>RELAY_HEDERA_NETWORK\<close>
  holds the mapping of the four endpoints \<open>network-node:50211\<close> to
  \<open>network-node-3:50211\<close> to the accounts \<open>0.0.3\<close> to \<open>0.0.6\<close>, and without it the
  monitor node list is the loaded one. Where the host accepts the write, the file
  holds that document.
\<close>

theorem multiNode_mutation:
  \<open>(\<not> multiNode opts \<longrightarrow> env (snd (configureMirrorNodeProperties h orig opts w)) = env w)
   \<and> (files (fs w) (applicationYmlPath h opts) = Some text
      \<and> yaml_load h text (objects orig) = Inr (application, loaded)
      \<and> hasSections orig opts loaded application \<longrightarrow>
      (\<exists>mutated.
          assignAll (enabledAssignments orig opts) loaded application = Inr mutated
        \<and> configureMirrorNodeProperties h orig opts w =
            writeFileSync h (applicationYmlPath h opts) (yaml_dump h 256 mutated application)
              (w\<lparr>trace := trace w @ [ReadFileSync (applicationYmlPath h opts)],
                 env := (if multiNode opts
                         then (env w)(''RELAY_HEDERA_NETWORK'' \<mapsto>
                                ''{"network-node:50211":"0.0.3","network-node-1:50211":"0.0.4","network-node-2:50211":"0.0.5","network-node-3:50211":"0.0.6"}'')
                         else env w)\<rparr>)
        \<and> (if multiNode opts
           then lookupPath mutated [''hedera'', ''mirror'', ''monitor'', ''nodes''] application
                  = Some (multiNodeProperties orig)
              \<and> env (snd (configureMirrorNodeProperties h orig opts w))
                  = (env w)(''RELAY_HEDERA_NETWORK'' \<mapsto>
                      ''{"network-node:50211":"0.0.3","network-node-1:50211":"0.0.4","network-node-2:50211":"0.0.5","network-node-3:50211":"0.0.6"}'')
           else lookupPath mutated [''hedera'', ''mirror'', ''monitor'', ''nodes''] application
                  = lookupPath loaded [''hedera'', ''mirror'', ''monitor'', ''nodes''] application)
        \<and> (\<not> writeDenied h (applicationYmlPath h opts) \<longrightarrow>
             fst (configureMirrorNodeProperties h orig opts w) = None
           \<and> files (fs (snd (configureMirrorNodeProperties h orig opts w)))
                (applicationYmlPath h opts) = Some (yaml_dump h 256 mutated application))))\<close>
  by (rule mirror_step_with_sections [unfolded RELAY_HEDERA_NETWORK_VALUE_def])

text \<open>
  Single-node and multi-node mode on the shipped document: the variable stays
  unset in the first and holds the mapping in the second, where the monitor node
  list is the template's.
\<close>

theorem multiNode_mutation_witness:
  \<open>\<not> multiNode demoOptions
   \<and> env (snd (configureMirrorNodeProperties demoHost demoOriginal demoOptions demoPrepared))
        ''RELAY_HEDERA_NETWORK'' = None
   \<and> multiNode (demoOptions\<lparr>multiNode := True\<rparr>)
   \<and> hasSections demoOriginal (demoOptions\<lparr>multiNode := True\<rparr>)
        (objects demoOriginal ++ map_of shippedObjects) (YRef 0)
   \<and> \<not> writeDenied demoHost (applicationYmlPath demoHost (demoOptions\<lparr>multiNode := True\<rparr>))
   \<and> (\<exists>mutated.
         files (fs (snd (configureMirrorNodeProperties demoHost demoOriginal
                           (demoOptions\<lparr>multiNode := True\<rparr>) demoPrepared)))
           (applicationYmlPath demoHost (demoOptions\<lparr>multiNode := True\<rparr>))
           = Some (yaml_dump demoHost 256 mutated (YRef 0))
       \<and> lookupPath mutated [''hedera'', ''mirror'', ''monitor'', ''nodes''] (YRef 0)
           = Some (YRef 103))
   \<and> env (snd (configureMirrorNodeProperties demoHost demoOriginal
                  (demoOptions\<lparr>multiNode := True\<rparr>) demoPrepared))
        ''RELAY_HEDERA_NETWORK''
       = Some ''{"network-node:50211":"0.0.3","network-node-1:50211":"0.0.4","network-node-2:50211":"0.0.5","network-node-3:50211":"0.0.6"}''\<close>
proof -
  let ?multi = "demoOptions\<lparr>multiNode := True\<rparr>"
  let ?loaded = "objects demoOriginal ++ map_of shippedObjects"
  have off: "\<not> multiNode demoOptions" and on: "multiNode ?multi"
    by (simp_all add: demoOptions_def)
  have there: "files (fs demoPrepared) (applicationYmlPath demoHost ?multi) = Some shippedApplicationText"
    by code_simp
  have loaded: "yaml_load demoHost shippedApplicationText (objects demoOriginal) = Inr (YRef 0, ?loaded)"
    by (simp add: demoHost_def demoLoad_def)
  have sections: "hasSections demoOriginal ?multi ?loaded (YRef 0)"
    by code_simp
  have allowed: "\<not> writeDenied demoHost (applicationYmlPath demoHost ?multi)"
    by (simp add: demoHost_def)
  from multiNode_mutation [of demoOptions demoHost demoOriginal demoPrepared] off
  have "env (snd (configureMirrorNodeProperties demoHost demoOriginal demoOptions demoPrepared))
          = env demoPrepared"
    by blast
  then have unset:
    "env (snd (configureMirrorNodeProperties demoHost demoOriginal demoOptions demoPrepared))
          ''RELAY_HEDERA_NETWORK'' = None"
    by (simp add: demoPrepared_def)
  from multiNode_mutation
      [of ?multi demoHost demoOriginal demoPrepared shippedApplicationText "YRef 0" ?loaded]
    there loaded sections
  obtain mutated where
    m: \<open>if multiNode ?multi
     then lookupPath mutated [''hedera'', ''mirror'', ''monitor'', ''nodes''] (YRef 0)
            = Some (multiNodeProperties demoOriginal)
        \<and> env (snd (configureMirrorNodeProperties demoHost demoOriginal ?multi demoPrepared))
            = (env demoPrepared)(''RELAY_HEDERA_NETWORK'' \<mapsto>
                ''{"network-node:50211":"0.0.3","network-node-1:50211":"0.0.4","network-node-2:50211":"0.0.5","network-node-3:50211":"0.0.6"}'')
     else lookupPath mutated [''hedera'', ''mirror'', ''monitor'', ''nodes''] (YRef 0)
            = lookupPath ?loaded [''hedera'', ''mirror'', ''monitor'', ''nodes''] (YRef 0)\<close>
    and f: "\<not> writeDenied demoHost (applicationYmlPath demoHost ?multi) \<longrightarrow>
       fst (configureMirrorNodeProperties demoHost demoOriginal ?multi demoPrepared) = None
     \<and> files (fs (snd (configureMirrorNodeProperties demoHost demoOriginal ?multi demoPrepared)))
          (applicationYmlPath demoHost ?multi) = Some (yaml_dump demoHost 256 mutated (YRef 0))"
    by blast
  from m on have
    "lookupPath mutated [''hedera'', ''mirror'', ''monitor'', ''nodes''] (YRef 0) = Some (YRef 103)"
    \<open>env (snd (configureMirrorNodeProperties demoHost demoOriginal ?multi demoPrepared))
        ''RELAY_HEDERA_NETWORK''
      = Some ''{"network-node:50211":"0.0.3","network-node-1:50211":"0.0.4","network-node-2:50211":"0.0.5","network-node-3:50211":"0.0.6"}''\<close>
    by (simp_all add: demoOriginal_def)
  with f allowed unset off on sections show ?thesis
    by blast
qed

text \<open>
  The claim as stated fails on a document without a \<open>monitor\<close> section: in
  multi-node mode the assignment of the node list throws, and the step ends with a
  \<open>TypeError\<close>, the variable unset and the file as it was.
\<close>

theorem multiNode_mutation_throws_without_monitor:
  "multiNode (demoOptions\<lparr>multiNode := True\<rparr>)
   \<and> files (fs demoWithoutMonitor) ''/work/compose-network/mirror-node/application.yml''
       = Some bareApplicationText
   \<and> yaml_load demoHost bareApplicationText (objects demoOriginal)
       = Inr (YRef 0, objects demoOriginal ++ map_of bareObjects)
   \<and> configureMirrorNodeProperties demoHost demoOriginal (demoOptions\<lparr>multiNode := True\<rparr>)
        demoWithoutMonitor
       = (Some TypeError,
          demoWithoutMonitor
            \<lparr>trace := [ReadFileSync ''/work/compose-network/mirror-node/application.yml'']\<rparr>)
   \<and> env (snd (configureMirrorNodeProperties demoHost demoOriginal
                  (demoOptions\<lparr>multiNode := True\<rparr>) demoWithoutMonitor))
        ''RELAY_HEDERA_NETWORK'' = None
   \<and> files (fs (snd (configureMirrorNodeProperties demoHost demoOriginal
                        (demoOptions\<lparr>multiNode := True\<rparr>) demoWithoutMonitor)))
        ''/work/compose-network/mirror-node/application.yml'' = Some bareApplicationText"
proof -
  let ?multi = "demoOptions\<lparr>multiNode := True\<rparr>"
  have path: "applicationYmlPath demoHost ?multi = ''/work/compose-network/mirror-node/application.yml''"
    by code_simp
  have there: "files (fs demoWithoutMonitor) (applicationYmlPath demoHost ?multi)
      = Some bareApplicationText"
    by code_simp
  have differ: "bareApplicationText \<noteq> shippedApplicationText"
    "bareApplicationText \<noteq> aliasedApplicationText"
    by code_simp+
  have loaded: "yaml_load demoHost bareApplicationText (objects demoOriginal)
      = Inr (YRef 0, objects demoOriginal ++ map_of bareObjects)"
    by (simp add: demoHost_def demoLoad_def differ)
  have throws: "assignAll (enabledAssignments demoOriginal ?multi)
      (objects demoOriginal ++ map_of bareObjects) (YRef 0) = Inl TypeError"
    by (simp add: enabledAssignments_def multiNodeTargets_def demoOptions_def demoOriginal_def
        bareObjects_def)
  have run: "configureMirrorNodeProperties demoHost demoOriginal ?multi demoWithoutMonitor
      = (Some TypeError,
         demoWithoutMonitor
           \<lparr>trace := [ReadFileSync ''/work/compose-network/mirror-node/application.yml'']\<rparr>)"
    unfolding mirror_run [OF there loaded] throws
    by (simp add: path) (simp add: demoWithoutMonitor_def)
  have "multiNode ?multi"
    by (simp add: demoOptions_def)
  with there loaded run show ?thesis
    unfolding path by (simp add: demoWithoutMonitor_def)
qed

section \<open>The port scan\<close>

lemma isPortInUse_advisory:
  "(\<forall>port\<in>set ports. busy port \<longrightarrow> port \<in> set NECESSARY_PORTS \<longrightarrow> port \<in> set OPTIONAL_PORTS) \<Longrightarrow>
   isPortInUse busy ports = (None, filter (\<lambda>port. busy port \<and> port \<in> set OPTIONAL_PORTS) ports)"
  by (induction ports) auto

lemma isPortInUse_fatal:
  "set xs \<subseteq> set NECESSARY_PORTS \<Longrightarrow> filter busy xs \<noteq> [] \<Longrightarrow>
   isPortInUse busy (xs @ ys) = (Some (PortInUse (hd (filter busy xs))), [])"
proof (induction xs)
  case Nil
  then show ?case by simp
next
  case (Cons x xs)
  then have "x \<notin> set OPTIONAL_PORTS"
    by (auto simp: NECESSARY_PORTS_def OPTIONAL_PORTS_def)
  with Cons show ?case by auto
qed

lemma scan_free:
  "\<forall>port\<in>set NECESSARY_PORTS. \<not> busy port \<Longrightarrow>
   isPortInUse busy (NECESSARY_PORTS @ OPTIONAL_PORTS) = (None, filter busy OPTIONAL_PORTS)"
proof -
  assume free: "\<forall>port\<in>set NECESSARY_PORTS. \<not> busy port"
  then have "filter (\<lambda>port. busy port \<and> port \<in> set OPTIONAL_PORTS) NECESSARY_PORTS = []"
    by (auto simp: filter_empty_conv)
  moreover have "filter (\<lambda>port. busy port \<and> port \<in> set OPTIONAL_PORTS) OPTIONAL_PORTS = filter busy OPTIONAL_PORTS"
    by (rule filter_cong) auto
  moreover have "isPortInUse busy (NECESSARY_PORTS @ OPTIONAL_PORTS) =
      (None, filter (\<lambda>port. busy port \<and> port \<in> set OPTIONAL_PORTS) (NECESSARY_PORTS @ OPTIONAL_PORTS))"
    using free by (intro isPortInUse_advisory) auto
  ultimately show ?thesis by simp
qed

lemma scan_fatal:
  "port \<in> set NECESSARY_PORTS \<Longrightarrow> busy port \<Longrightarrow>
   isPortInUse busy (NECESSARY_PORTS @ OPTIONAL_PORTS) =
     (Some (PortInUse (hd (filter busy NECESSARY_PORTS))), [])
   \<and> hd (filter busy NECESSARY_PORTS) \<in> set NECESSARY_PORTS
   \<and> busy (hd (filter busy NECESSARY_PORTS))"
proof -
  assume p: "port \<in> set NECESSARY_PORTS" "busy port"
  then have ne: "filter busy NECESSARY_PORTS \<noteq> []"
    by (auto simp: filter_empty_conv)
  then have "hd (filter busy NECESSARY_PORTS) \<in> set (filter busy NECESSARY_PORTS)"
    by (rule hd_in_set)
  with isPortInUse_fatal [OF subset_refl ne] show ?thesis by auto
qed

section \<open>The phase as a whole\<close>

lemma onStart_unrecognized:
  "catalog h (network opts) = None \<Longrightarrow>
   onStart h orig opts w = (Some (UnrecognizedNetwork (network opts)), w)"
  by (simp add: onStart_def getSelectedConfigurationData_def)


lemma onStart_not_ready:
  "catalog h (network opts) = Some configurationData \<Longrightarrow>
   \<not> (isCorrectDockerComposeVersion h \<and> checkDocker h \<and> checkDockerResources h (multiNode opts)) \<Longrightarrow>
   onStart h orig opts w = update UnresolvableError (w\<lparr>trace := trace w @
   [IsCorrectDockerComposeVersion, CheckDocker, CheckDockerResources (multiNode opts)]\<rparr>)"
  by (simp add: onStart_def getSelectedConfigurationData_def Let_def called_def)

lemma onStart_ready:
  "catalog h (network opts) = Some configurationData \<Longrightarrow>
   isCorrectDockerComposeVersion h \<Longrightarrow> checkDocker h \<Longrightarrow> checkDockerResources h (multiNode opts) \<Longrightarrow>
   onStart h orig opts w =
     (case isPortInUse (portBusy h) (NECESSARY_PORTS @ OPTIONAL_PORTS) of
        (Some e, logged) \<Rightarrow>
          (Some e, w\<lparr>trace := trace w @
             [IsCorrectDockerComposeVersion, CheckDocker, CheckDockerResources (multiNode opts),
              IsPortInUse (NECESSARY_PORTS @ OPTIONAL_PORTS)],
             advisories := advisories w @ logged\<rparr>)
      | (None, logged) \<Rightarrow>
          materialize h orig opts configurationData
            (w\<lparr>trace := trace w @
             [IsCorrectDockerComposeVersion, CheckDocker, CheckDockerResources (multiNode opts),
              IsPortInUse (NECESSARY_PORTS @ OPTIONAL_PORTS)],
             advisories := advisories w @ logged\<rparr>))"
  by (simp add: onStart_def getSelectedConfigurationData_def Let_def called_def
      split: prod.splits option.splits)


lemma configureEnvVariables_frame:
  "fs (configureEnvVariables opts tags variables w) = fs w"
  "observer (configureEnvVariables opts tags variables w) = observer w"
  "events (configureEnvVariables opts tags variables w) = events w"
  "trace (configureEnvVariables opts tags variables w) = trace w"
  "advisories (configureEnvVariables opts tags variables w) = advisories w"
  by (simp_all add: configureEnvVariables_def Let_def frame_fold_setEnv split: option.splits)

lemma prepareWorkDirectory_ok:
  "createEphemeralDirectories h (workDir opts) (fs w) = (None, tree1) \<Longrightarrow>
   copyPaths h (configFiles h opts) tree1 = (None, tree2) \<Longrightarrow>
   prepareWorkDirectory h opts w =
     (None, w\<lparr>trace := trace w @ [CreateEphemeralDirectories (workDir opts), CopyPaths (configFiles h opts)],
              fs := tree2\<rparr>)"
  by (simp add: prepareWorkDirectory_def called_def Let_def)

lemma configFiles_three:
  "distinct [join h [dirname h, ''../../compose-network/network-node/data/config/''],
             join h [dirname h, APPLICATION_YML_RELATIVE_PATH],
             join h [dirname h, ''../../src/services/record-parser'']] \<Longrightarrow>
   configFiles h opts =
     [(join h [dirname h, ''../../compose-network/network-node/data/config/''],
       workDir opts @ ''/compose-network/network-node/data/config''),
      (join h [dirname h, APPLICATION_YML_RELATIVE_PATH],
       workDir opts @ ''/compose-network/mirror-node/application.yml''),
      (join h [dirname h, ''../../src/services/record-parser''],
       workDir opts @ ''/services/record-parser'')]"
  by (auto simp add: configFiles_def Let_def)

lemma env_configureEnvVariables_Some:
  "env (configureEnvVariables opts tags (Some variables) w) =
     (if limits opts
      then fold (\<lambda>v e. e(key v \<mapsto> value v)) (tags @ variables) (env w)
      else (fold (\<lambda>v e. e(key v \<mapsto> value v)) (tags @ variables) (env w))
             (''RELAY_HBAR_RATE_LIMIT_TINYBAR'' \<mapsto> ''0'',
              ''RELAY_HBAR_RATE_LIMIT_DURATION'' \<mapsto> ''0'',
              ''RELAY_RATE_LIMIT_DISABLED'' \<mapsto> ''true''))"
  by (simp add: configureEnvVariables_def Let_def showBool_def fold_setEnv_eq)

lemma env_configureNodeProperties:
  "env (snd (configureNodeProperties h orig opts nodeProperties w)) = env w"
  by (cases nodeProperties)
     (simp_all add: configureNodeProperties_None configureNodeProperties_Some env_writeFileSync)

lemma env_update: "env (snd (update event w)) = env w"
  by (simp add: update_def)

lemma env_prepareWorkDirectory:
  "env (snd (prepareWorkDirectory h opts w)) = env w"
  by (simp add: prepareWorkDirectory_def called_def Let_def split: prod.splits option.splits)

lemma andThen_None: "andThen (None, w) f = f w"
  by (simp add: andThen_def)

lemma env_andThen:
  "(\<And>w'. env (snd (f w')) name = env w' name) \<Longrightarrow>
   env (snd (andThen r f)) name = env (snd r) name"
  by (cases r) (simp add: andThen_def split: option.splits)

lemma env_configureEnvVariables_only:
  "env w' = env w \<Longrightarrow>
   env (configureEnvVariables opts tags (Some variables) w') =
   env (configureEnvVariables opts tags (Some variables) w)"
  by (simp add: env_configureEnvVariables_Some)

lemma env_materialize:
  assumes "prepareWorkDirectory h opts w = (None, w1)"
    and "name \<noteq> ''RELAY_HEDERA_NETWORK''"
  shows "env (snd (materialize h orig opts configurationData w)) name =
     env (configureEnvVariables opts (imageTagConfiguration configurationData)
            (Some ((case envConfiguration configurationData of
                      None \<Rightarrow> [] | Some catalogVariables \<Rightarrow> catalogVariables)
                   @ workDirConfiguration h opts)) w) name"
proof -
  let ?variables = "(case envConfiguration configurationData of
                       None \<Rightarrow> [] | Some catalogVariables \<Rightarrow> catalogVariables)
                    @ workDirConfiguration h opts"
  let ?w2 = "configureEnvVariables opts (imageTagConfiguration configurationData)
               (Some ?variables) w1"
  have rest: "env (snd (andThen (configureMirrorNodeProperties h orig opts w3) (update Finish))) name
      = env w3 name" for w3
    using env_andThen [of "update Finish" name "configureMirrorNodeProperties h orig opts w3"]
    by (simp add: env_update env_configureMirrorNodeProperties_other [OF assms(2)])
  have "materialize h orig opts configurationData w =
      andThen (configureNodeProperties h orig opts
                 (case nodeConfiguration configurationData of
                    None \<Rightarrow> None | Some node \<Rightarrow> properties node) ?w2)
        (\<lambda>w3. andThen (configureMirrorNodeProperties h orig opts w3) (update Finish))"
    by (simp only: materialize_def assms(1) andThen_None Let_def)
  moreover have "env (snd (andThen (configureNodeProperties h orig opts
                 (case nodeConfiguration configurationData of
                    None \<Rightarrow> None | Some node \<Rightarrow> properties node) ?w2)
        (\<lambda>w3. andThen (configureMirrorNodeProperties h orig opts w3) (update Finish)))) name
      = env (snd (configureNodeProperties h orig opts
                 (case nodeConfiguration configurationData of
                    None \<Rightarrow> None | Some node \<Rightarrow> properties node) ?w2)) name"
    by (rule env_andThen) (rule rest)
  ultimately have "env (snd (materialize h orig opts configurationData w)) name = env ?w2 name"
    by (simp add: env_configureNodeProperties)
  moreover from assms(1) have "env w1 = env w"
    using env_prepareWorkDirectory [of h opts w] by simp
  then have "env ?w2 = env (configureEnvVariables opts (imageTagConfiguration configurationData)
                             (Some ?variables) w)"
    by (rule env_configureEnvVariables_only)
  ultimately show ?thesis
    by simp
qed

lemma onStart_success:
  assumes obs: "observer w"
    and cat: "catalog h (network opts) = Some configurationData"
    and checks: "isCorrectDockerComposeVersion h" "checkDocker h"
      "checkDockerResources h (multiNode opts)"
    and ports: "\<forall>port\<in>set NECESSARY_PORTS. \<not> portBusy h port"
    and made: "createEphemeralDirectories h (workDir opts) (fs w) = (None, tree1)"
    and copied: "copyPaths h (configFiles h opts) tree1 = (None, tree2)"
    and writable: "\<not> writeDenied h (bootstrapPropertiesPath h opts)"
      "\<not> writeDenied h (applicationYmlPath h opts)"
    and apart: "bootstrapPropertiesPath h opts \<noteq> applicationYmlPath h opts"
    and yml: "files tree2 (applicationYmlPath h opts) = Some text"
    and loaded: "yaml_load h text (objects orig) = Inr (application, loaded)"
    and sections: "hasSections orig opts loaded application"
  shows "\<exists>mutated.
           assignAll (enabledAssignments orig opts) loaded application = Inr mutated
         \<and> fst (onStart h orig opts w) = None
         \<and> events (snd (onStart h orig opts w)) = events w @ [Finish]
         \<and> trace (snd (onStart h orig opts w)) =
             trace w
             @ [IsCorrectDockerComposeVersion, CheckDocker, CheckDockerResources (multiNode opts),
                IsPortInUse (NECESSARY_PORTS @ OPTIONAL_PORTS),
                CreateEphemeralDirectories (workDir opts), CopyPaths (configFiles h opts)]
             @ (case (case nodeConfiguration configurationData of
                        None \<Rightarrow> None | Some node \<Rightarrow> properties node) of
                  None \<Rightarrow> []
                | Some overrides \<Rightarrow>
                    [WriteFileSync (bootstrapPropertiesPath h opts)
                       (propertiesText (bootsrapProperties orig @ overrides))])
             @ [ReadFileSync (applicationYmlPath h opts),
                WriteFileSync (applicationYmlPath h opts) (yaml_dump h 256 mutated application)]
         \<and> advisories (snd (onStart h orig opts w)) =
             advisories w @ filter (portBusy h) OPTIONAL_PORTS
         \<and> env (snd (onStart h orig opts w)) =
             (if multiNode opts
              then (env (configureEnvVariables opts (imageTagConfiguration configurationData)
                      (Some ((case envConfiguration configurationData of
                                None \<Rightarrow> [] | Some catalogVariables \<Rightarrow> catalogVariables)
                             @ workDirConfiguration h opts)) w))
                   (''RELAY_HEDERA_NETWORK'' \<mapsto> RELAY_HEDERA_NETWORK_VALUE)
              else env (configureEnvVariables opts (imageTagConfiguration configurationData)
                      (Some ((case envConfiguration configurationData of
                                None \<Rightarrow> [] | Some catalogVariables \<Rightarrow> catalogVariables)
                             @ workDirConfiguration h opts)) w))
         \<and> files (fs (snd (onStart h orig opts w))) (applicationYmlPath h opts) =
             Some (yaml_dump h 256 mutated application)
         \<and> files (fs (snd (onStart h orig opts w))) (bootstrapPropertiesPath h opts) =
             (case (case nodeConfiguration configurationData of
                      None \<Rightarrow> None | Some node \<Rightarrow> properties node) of
                None \<Rightarrow> files tree2 (bootstrapPropertiesPath h opts)
              | Some overrides \<Rightarrow> Some (propertiesText (bootsrapProperties orig @ overrides)))"
proof -
  from sections obtain mutated where
    all: "assignAll (enabledAssignments orig opts) loaded application = Inr mutated"
    using hasSections_values [of orig opts loaded application] by blast
  let ?w0 = "w\<lparr>trace := trace w @
       [IsCorrectDockerComposeVersion, CheckDocker, CheckDockerResources (multiNode opts),
        IsPortInUse (NECESSARY_PORTS @ OPTIONAL_PORTS)],
       advisories := advisories w @ filter (portBusy h) OPTIONAL_PORTS\<rparr>"
  let ?props = "case nodeConfiguration configurationData of
                  None \<Rightarrow> None | Some node \<Rightarrow> properties node"
  have start: "onStart h orig opts w = materialize h orig opts configurationData ?w0"
    by (simp add: onStart_ready [OF cat checks] scan_free [OF ports])
  have prep: "prepareWorkDirectory h opts ?w0 =
      (None, ?w0\<lparr>trace := trace ?w0 @ [CreateEphemeralDirectories (workDir opts),
                                          CopyPaths (configFiles h opts)],
                   fs := tree2\<rparr>)"
    by (rule prepareWorkDirectory_ok [OF _ copied]) (simp add: made)
  show ?thesis
  proof (cases ?props)
    case None
    show ?thesis
      by (rule exI [of _ mutated])
         (simp add: all start materialize_def andThen_def prep Let_def None
            configureNodeProperties_None configureEnvVariables_frame env_configureEnvVariables_Some yml loaded writable obs apart
            mirror_written [OF _ loaded all] update_def)
  next
    case (Some overrides)
    show ?thesis
      by (rule exI [of _ mutated])
         (simp add: all start materialize_def andThen_def prep Let_def Some
            configureNodeProperties_Some writeFileSync_def called_def
            configureEnvVariables_frame env_configureEnvVariables_Some yml loaded writable obs apart apart [symmetric]
            mirror_written [OF _ loaded all] update_def)
  qed
qed


text \<open>
  Claim C2, as the code has it. The lookup of an unrecognized network identifier
  fails, and \<open>onStart\<close> has no handler for it: the failure leaves \<open>onStart\<close> before
  any readiness check is made, no event reaches the observer, and the file tree and
  the environment are as they were.
\<close>

theorem onStart_unrecognized_network:
  assumes "catalog h (network opts) = None"
  shows "onStart h orig opts w = (Some (UnrecognizedNetwork (network opts)), w)"
  using assms by (rule onStart_unrecognized)

theorem onStart_unrecognized_network_witness:
  "catalog demoHost (network (demoOptions\<lparr>network := ''previewnet''\<rparr>)) = None
   \<and> onStart demoHost demoOriginal (demoOptions\<lparr>network := ''previewnet''\<rparr>) demoWorld
       = (Some (UnrecognizedNetwork ''previewnet''), demoWorld)"
proof -
  have unknown: "catalog demoHost (network (demoOptions\<lparr>network := ''previewnet''\<rparr>)) = None"
    by (simp add: demoHost_def demoCatalog_def)
  from onStart_unrecognized_network [OF unknown, of demoOriginal demoWorld] unknown
  show ?thesis by simp
qed

text \<open>
  The claim as stated fails: with an observer subscribed and a network that the
  catalog does not have, the observer receives no event at all.
\<close>

theorem onStart_unrecognized_network_emits_nothing:
  "observer demoWorld
   \<and> catalog demoHost (network (demoOptions\<lparr>network := ''moon''\<rparr>)) = None
   \<and> fst (onStart demoHost demoOriginal (demoOptions\<lparr>network := ''moon''\<rparr>) demoWorld)
       = Some (UnrecognizedNetwork ''moon'')
   \<and> events (snd (onStart demoHost demoOriginal (demoOptions\<lparr>network := ''moon''\<rparr>) demoWorld)) = []"
  by (simp add: onStart_def getSelectedConfigurationData_def demoHost_def demoCatalog_def
      demoWorld_def)

text \<open>
  Claim C1. When the network is recognized and one of the three readiness checks
  is false, all three checks have been made, in order, and nothing else: the file
  tree and the environment are as they were, and the subscribed observer has
  received \<open>UnresolvableError\<close> as the only new event.
\<close>

theorem onStart_not_ready_emits_UnresolvableError:
  assumes "catalog h (network opts) = Some configurationData"
    and "\<not> (isCorrectDockerComposeVersion h \<and> checkDocker h \<and> checkDockerResources h (multiNode opts))"
  shows "trace (snd (onStart h orig opts w)) =
           trace w @ [IsCorrectDockerComposeVersion, CheckDocker, CheckDockerResources (multiNode opts)]
       \<and> fs (snd (onStart h orig opts w)) = fs w
       \<and> env (snd (onStart h orig opts w)) = env w
       \<and> (observer w \<longrightarrow>
            onStart h orig opts w =
              (None, w\<lparr>events := events w @ [UnresolvableError],
                        trace := trace w @ [IsCorrectDockerComposeVersion, CheckDocker,
                                            CheckDockerResources (multiNode opts)]\<rparr>))"
  by (simp add: onStart_not_ready [OF assms] update_def)


text \<open>The resources are insufficient, the two other checks pass.\<close>

theorem onStart_not_ready_emits_UnresolvableError_witness:
  "catalog (demoHost\<lparr>checkDockerResources := (\<lambda>multi. False)\<rparr>) (network demoOptions)
     = Some demoLocal
   \<and> isCorrectDockerComposeVersion (demoHost\<lparr>checkDockerResources := (\<lambda>multi. False)\<rparr>)
   \<and> checkDocker (demoHost\<lparr>checkDockerResources := (\<lambda>multi. False)\<rparr>)
   \<and> \<not> checkDockerResources (demoHost\<lparr>checkDockerResources := (\<lambda>multi. False)\<rparr>)
        (multiNode demoOptions)
   \<and> observer demoWorld
   \<and> onStart (demoHost\<lparr>checkDockerResources := (\<lambda>multi. False)\<rparr>) demoOriginal demoOptions
        demoWorld
       = (None, demoWorld\<lparr>events := [UnresolvableError],
                          trace := [IsCorrectDockerComposeVersion, CheckDocker,
                                    CheckDockerResources False]\<rparr>)"
proof -
  let ?h = "demoHost\<lparr>checkDockerResources := (\<lambda>multi. False)\<rparr>"
  have known: "catalog ?h (network demoOptions) = Some demoLocal"
    by (simp add: demoHost_def demoCatalog_def demoOptions_def)
  have failing: "\<not> (isCorrectDockerComposeVersion ?h \<and> checkDocker ?h
                   \<and> checkDockerResources ?h (multiNode demoOptions))"
    by simp
  have subscribed: "observer demoWorld"
    by (simp add: demoWorld_def)
  from onStart_not_ready_emits_UnresolvableError [OF known failing, of demoOriginal demoWorld]
    subscribed
  have "onStart ?h demoOriginal demoOptions demoWorld =
      (None, demoWorld\<lparr>events := events demoWorld @ [UnresolvableError],
                        trace := trace demoWorld @ [IsCorrectDockerComposeVersion, CheckDocker,
                                   CheckDockerResources (multiNode demoOptions)]\<rparr>)"
    by blast
  then show ?thesis
    using known subscribed by (simp add: demoWorld_def demoOptions_def demoHost_def)
qed

text \<open>
  Claim C3. With the network recognized and the three checks passed, \<open>onStart\<close>
  scans the necessary ports followed by the optional ones. If a necessary port is in
  use, the scan fails on the first such port and \<open>onStart\<close> ends there with its
  failure: nothing is logged, prepared, exported or sent to the observer. If no
  necessary port is in use, the optional ports in use are logged and \<open>onStart\<close> goes
  on with the preparation, in a world that differs only by the calls made and the
  ports logged.
\<close>

theorem port_conflicts:
  assumes "catalog h (network opts) = Some configurationData"
    and "isCorrectDockerComposeVersion h" and "checkDocker h"
    and "checkDockerResources h (multiNode opts)"
  shows "(\<forall>port\<in>set NECESSARY_PORTS. portBusy h port \<longrightarrow>
            (\<exists>first\<in>set NECESSARY_PORTS. portBusy h first \<and>
               onStart h orig opts w =
                 (Some (PortInUse first),
                  w\<lparr>trace := trace w @
                       [IsCorrectDockerComposeVersion, CheckDocker,
                        CheckDockerResources (multiNode opts),
                        IsPortInUse (NECESSARY_PORTS @ OPTIONAL_PORTS)]\<rparr>)))
       \<and> ((\<forall>port\<in>set NECESSARY_PORTS. \<not> portBusy h port) \<longrightarrow>
            onStart h orig opts w =
              materialize h orig opts configurationData
                (w\<lparr>trace := trace w @
                       [IsCorrectDockerComposeVersion, CheckDocker,
                        CheckDockerResources (multiNode opts),
                        IsPortInUse (NECESSARY_PORTS @ OPTIONAL_PORTS)],
                    advisories := advisories w @ filter (portBusy h) OPTIONAL_PORTS\<rparr>))"
proof (intro conjI ballI impI)
  fix port assume "port \<in> set NECESSARY_PORTS" "portBusy h port"
  from scan_fatal [of port "portBusy h", OF this] show "\<exists>first\<in>set NECESSARY_PORTS. portBusy h first \<and>
               onStart h orig opts w =
                 (Some (PortInUse first),
                  w\<lparr>trace := trace w @
                       [IsCorrectDockerComposeVersion, CheckDocker,
                        CheckDockerResources (multiNode opts),
                        IsPortInUse (NECESSARY_PORTS @ OPTIONAL_PORTS)]\<rparr>)"
    by (intro bexI [of _ "hd (filter (portBusy h) NECESSARY_PORTS)"])
       (simp_all add: onStart_ready [OF assms])
next
  assume "\<forall>port\<in>set NECESSARY_PORTS. \<not> portBusy h port"
  from scan_free [OF this] show "onStart h orig opts w =
              materialize h orig opts configurationData
                (w\<lparr>trace := trace w @
                       [IsCorrectDockerComposeVersion, CheckDocker,
                        CheckDockerResources (multiNode opts),
                        IsPortInUse (NECESSARY_PORTS @ OPTIONAL_PORTS)],
                    advisories := advisories w @ filter (portBusy h) OPTIONAL_PORTS\<rparr>)"
    by (simp add: onStart_ready [OF assms])
qed


text \<open>
  Ports 5600 (necessary) and 8080 (optional) in use: the scan fails on 5600. Port
  8080 alone in use: it is logged and the preparation starts.
\<close>

theorem port_conflicts_witness:
  "onStart (demoHost\<lparr>portBusy := (\<lambda>port. port = 5600 \<or> port = 8080)\<rparr>) demoOriginal
     demoOptions demoWorld
     = (Some (PortInUse 5600),
        demoWorld\<lparr>trace := [IsCorrectDockerComposeVersion, CheckDocker,
                             CheckDockerResources False,
                             IsPortInUse (NECESSARY_PORTS @ OPTIONAL_PORTS)]\<rparr>)
   \<and> onStart demoHost demoOriginal demoOptions demoWorld
     = materialize demoHost demoOriginal demoOptions demoLocal
         (demoWorld\<lparr>trace := [IsCorrectDockerComposeVersion, CheckDocker,
                               CheckDockerResources False,
                               IsPortInUse (NECESSARY_PORTS @ OPTIONAL_PORTS)],
                     advisories := [8080]\<rparr>)"
proof -
  let ?h = "demoHost\<lparr>portBusy := (\<lambda>port. port = 5600 \<or> port = 8080)\<rparr>"
  have known: "catalog ?h (network demoOptions) = Some demoLocal"
    "catalog demoHost (network demoOptions) = Some demoLocal"
    by (simp_all add: demoHost_def demoCatalog_def demoOptions_def)
  have ready: "isCorrectDockerComposeVersion ?h" "checkDocker ?h"
    "checkDockerResources ?h (multiNode demoOptions)"
    "isCorrectDockerComposeVersion demoHost" "checkDocker demoHost"
    "checkDockerResources demoHost (multiNode demoOptions)"
    by (simp_all add: demoHost_def)
  have taken: "(5600::nat) \<in> set NECESSARY_PORTS" "portBusy ?h 5600"
    by (simp_all add: NECESSARY_PORTS_def)
  have free: "\<forall>port\<in>set NECESSARY_PORTS. \<not> portBusy demoHost port"
    by (simp add: NECESSARY_PORTS_def demoHost_def)
  have logged: "filter (portBusy demoHost) OPTIONAL_PORTS = [8080]"
    by (simp add: OPTIONAL_PORTS_def demoHost_def)
  from port_conflicts [OF known(1) ready(1-3), of demoOriginal demoWorld] taken
  obtain first where first: "first \<in> set NECESSARY_PORTS" "portBusy ?h first"
    and fatal: "onStart ?h demoOriginal demoOptions demoWorld =
      (Some (PortInUse first),
       demoWorld\<lparr>trace := trace demoWorld @
          [IsCorrectDockerComposeVersion, CheckDocker,
           CheckDockerResources (multiNode demoOptions),
           IsPortInUse (NECESSARY_PORTS @ OPTIONAL_PORTS)]\<rparr>)"
    by blast
  from first have "first = 5600"
    by (auto simp: NECESSARY_PORTS_def)
  moreover from port_conflicts [OF known(2) ready(4-6), of demoOriginal demoWorld] free
  have "onStart demoHost demoOriginal demoOptions demoWorld =
      materialize demoHost demoOriginal demoOptions demoLocal
        (demoWorld\<lparr>trace := trace demoWorld @
            [IsCorrectDockerComposeVersion, CheckDocker,
             CheckDockerResources (multiNode demoOptions),
             IsPortInUse (NECESSARY_PORTS @ OPTIONAL_PORTS)],
          advisories := advisories demoWorld @ filter (portBusy demoHost) OPTIONAL_PORTS\<rparr>)"
    by blast
  ultimately show ?thesis
    using fatal logged by (simp add: demoWorld_def demoOptions_def)
qed

text \<open>
  Claim C6. In every run of \<open>onStart\<close> that gets as far as the export (the network
  is recognized, the three checks are true, no necessary port is in use and the
  working directory is prepared), whatever happens afterwards, the environment that
  \<open>onStart\<close> leaves is, for every variable but \<open>RELAY_HEDERA_NETWORK\<close>, the
  environment after exporting the image tags and then the catalog's list with the
  four entries of the working directory appended to it. So the four variables hold
  the paths computed from the working directory, whatever the image tags and the
  catalog's list hold for the same keys.
\<close>

theorem workDir_paths_take_precedence:
  assumes "catalog h (network opts) = Some configurationData"
    and "isCorrectDockerComposeVersion h" and "checkDocker h"
    and "checkDockerResources h (multiNode opts)"
    and "\<forall>port\<in>set NECESSARY_PORTS. \<not> portBusy h port"
    and "createEphemeralDirectories h (workDir opts) (fs w) = (None, tree1)"
    and "copyPaths h (configFiles h opts) tree1 = (None, tree2)"
  shows "(\<forall>name. name \<noteq> ''RELAY_HEDERA_NETWORK'' \<longrightarrow>
            env (snd (onStart h orig opts w)) name =
            env (configureEnvVariables opts (imageTagConfiguration configurationData)
                   (Some ((case envConfiguration configurationData of
                             None \<Rightarrow> [] | Some catalogVariables \<Rightarrow> catalogVariables)
                          @ workDirConfiguration h opts)) w) name)
       \<and> env (snd (onStart h orig opts w)) ''NETWORK_NODE_LOGS_ROOT_PATH''
           = Some (join h [workDir opts, ''network-logs'', ''node''])
       \<and> env (snd (onStart h orig opts w)) ''APPLICATION_CONFIG_PATH''
           = Some (join h [workDir opts, ''compose-network'', ''network-node'', ''data'', ''config''])
       \<and> env (snd (onStart h orig opts w)) ''MIRROR_NODE_CONFIG_PATH'' = Some (workDir opts)
       \<and> env (snd (onStart h orig opts w)) ''RECORD_PARSER_ROOT_PATH''
           = Some (join h [workDir opts, ''services'', ''record-parser''])"
proof -
  let ?w0 = "w\<lparr>trace := trace w @
       [IsCorrectDockerComposeVersion, CheckDocker, CheckDockerResources (multiNode opts),
        IsPortInUse (NECESSARY_PORTS @ OPTIONAL_PORTS)],
       advisories := advisories w @ filter (portBusy h) OPTIONAL_PORTS\<rparr>"
  let ?exported = "configureEnvVariables opts (imageTagConfiguration configurationData)
      (Some ((case envConfiguration configurationData of
                None \<Rightarrow> [] | Some catalogVariables \<Rightarrow> catalogVariables)
             @ workDirConfiguration h opts))"
  have start: "onStart h orig opts w = materialize h orig opts configurationData ?w0"
    by (simp add: onStart_ready [OF assms(1-4)] scan_free [OF assms(5)])
  have prepared: "prepareWorkDirectory h opts ?w0 =
      (None, ?w0\<lparr>trace := trace ?w0 @ [CreateEphemeralDirectories (workDir opts),
                                          CopyPaths (configFiles h opts)],
                   fs := tree2\<rparr>)"
    by (rule prepareWorkDirectory_ok [OF _ assms(7)]) (simp add: assms(6))
  have same: "env (?exported ?w0) = env (?exported w)"
    by (rule env_configureEnvVariables_only) simp
  have all: "env (snd (onStart h orig opts w)) name = env (?exported w) name"
    if "name \<noteq> ''RELAY_HEDERA_NETWORK''" for name
    unfolding start using env_materialize [OF prepared that] same by simp
  have paths:
    "env (?exported w) ''NETWORK_NODE_LOGS_ROOT_PATH''
       = Some (join h [workDir opts, ''network-logs'', ''node''])"
    "env (?exported w) ''APPLICATION_CONFIG_PATH''
       = Some (join h [workDir opts, ''compose-network'', ''network-node'', ''data'', ''config''])"
    "env (?exported w) ''MIRROR_NODE_CONFIG_PATH'' = Some (workDir opts)"
    "env (?exported w) ''RECORD_PARSER_ROOT_PATH''
       = Some (join h [workDir opts, ''services'', ''record-parser''])"
    by (simp_all add: configureEnvVariables_def Let_def env_workDirConfiguration)
  from all paths show ?thesis
    by simp
qed

text \<open>
  The catalog entry of the local network gives the logs' root path as
  \<open>./network-logs/node\<close>; after \<open>onStart\<close> the variable holds the path under the
  working directory.
\<close>

theorem workDir_paths_take_precedence_witness:
  "catalog demoHost (network demoOptions) = Some demoLocal
   \<and> envConfiguration demoLocal = Some
        [\<lparr>key = ''RELAY_RATE_LIMIT_DISABLED'', value = ''false''\<rparr>,
         \<lparr>key = ''NETWORK_NODE_LOGS_ROOT_PATH'', value = ''./network-logs/node''\<rparr>]
   \<and> env (snd (onStart demoHost demoOriginal demoOptions demoWorld)) ''NETWORK_NODE_LOGS_ROOT_PATH''
       = Some ''/work/network-logs/node''
   \<and> env (snd (onStart demoHost demoOriginal demoOptions demoWorld)) ''MIRROR_NODE_CONFIG_PATH''
       = Some ''/work''
   \<and> env (snd (onStart demoHost demoOriginal demoOptions demoWorld)) ''NETWORK_NODE_IMAGE_TAG''
       = Some ''0.49.7''"
proof -
  let ?tree1 = "snd (ephemeralDirectories ''/work'' demoTree)"
  let ?tree2 = "snd (copyPaths demoHost (configFiles demoHost demoOptions) ?tree1)"
  have known: "catalog demoHost (network demoOptions) = Some demoLocal"
    by (simp add: demoHost_def demoCatalog_def demoOptions_def)
  have ready: "isCorrectDockerComposeVersion demoHost" "checkDocker demoHost"
    "checkDockerResources demoHost (multiNode demoOptions)"
    by (simp_all add: demoHost_def)
  have free: "\<forall>port\<in>set NECESSARY_PORTS. \<not> portBusy demoHost port"
    by (simp add: NECESSARY_PORTS_def demoHost_def)
  have made: "createEphemeralDirectories demoHost (workDir demoOptions) (fs demoWorld) = (None, ?tree1)"
    by (simp add: demoHost_def demoOptions_def demoWorld_def ephemeralDirectories_def)
  have "fst (copyPaths demoHost (configFiles demoHost demoOptions) ?tree1) = None"
    by code_simp
  then have copied: "copyPaths demoHost (configFiles demoHost demoOptions) ?tree1 = (None, ?tree2)"
    by (simp add: prod_eq_iff)
  have logs: "join demoHost [workDir demoOptions, ''network-logs'', ''node''] = ''/work/network-logs/node''"
    by code_simp
  have catalogList: "envConfiguration demoLocal = Some
        [\<lparr>key = ''RELAY_RATE_LIMIT_DISABLED'', value = ''false''\<rparr>,
         \<lparr>key = ''NETWORK_NODE_LOGS_ROOT_PATH'', value = ''./network-logs/node''\<rparr>]"
    by (simp add: demoLocal_def)
  note use = workDir_paths_take_precedence [OF known ready free made copied, of demoOriginal]
  from use have "env (snd (onStart demoHost demoOriginal demoOptions demoWorld)) ''NETWORK_NODE_IMAGE_TAG''
      = env (configureEnvVariables demoOptions (imageTagConfiguration demoLocal)
               (Some ((case envConfiguration demoLocal of
                         None \<Rightarrow> [] | Some catalogVariables \<Rightarrow> catalogVariables)
                      @ workDirConfiguration demoHost demoOptions)) demoWorld) ''NETWORK_NODE_IMAGE_TAG''"
    by simp
  then have tag: "env (snd (onStart demoHost demoOriginal demoOptions demoWorld)) ''NETWORK_NODE_IMAGE_TAG''
      = Some ''0.49.7''"
    by (simp add: env_configureEnvVariables_Some demoLocal_def workDirConfiguration_def)
  from use have "env (snd (onStart demoHost demoOriginal demoOptions demoWorld)) ''NETWORK_NODE_LOGS_ROOT_PATH''
       = Some (join demoHost [workDir demoOptions, ''network-logs'', ''node''])"
    "env (snd (onStart demoHost demoOriginal demoOptions demoWorld)) ''MIRROR_NODE_CONFIG_PATH''
       = Some (workDir demoOptions)"
    by blast+
  with known catalogList tag show ?thesis
    by (simp add: logs) (simp add: demoOptions_def)
qed

text \<open>
  Claim C8, as the code has it. Let an observer be subscribed, the network be
  recognized, the three readiness checks be true, no necessary port be in use, the
  two file-system utilities and the two writes succeed, the copied application
  document be readable and loadable and have the sections assigned into (the two
  destination paths being different files). Then \<open>onStart\<close> returns normally after
  exactly this sequence: the three checks, the port scan, the creation of the
  directories, the copy of the path pairs (three pairs when the three sources are
  different paths), the write of the properties file when the catalog entry has node
  properties and no write of it otherwise, and the read and rewrite of the
  application document. The observer receives \<open>Finish\<close> as the one new event. The
  properties file holds the base template followed by the overrides when there are
  overrides, and what the copy left otherwise.
\<close>

theorem onStart_completes:
  assumes "observer w"
    and "catalog h (network opts) = Some configurationData"
    and "isCorrectDockerComposeVersion h" and "checkDocker h"
    and "checkDockerResources h (multiNode opts)"
    and "\<forall>port\<in>set NECESSARY_PORTS. \<not> portBusy h port"
    and "createEphemeralDirectories h (workDir opts) (fs w) = (None, tree1)"
    and "copyPaths h (configFiles h opts) tree1 = (None, tree2)"
    and "\<not> writeDenied h (bootstrapPropertiesPath h opts)"
    and "\<not> writeDenied h (applicationYmlPath h opts)"
    and "bootstrapPropertiesPath h opts \<noteq> applicationYmlPath h opts"
    and "files tree2 (applicationYmlPath h opts) = Some text"
    and "yaml_load h text (objects orig) = Inr (application, loaded)"
    and "hasSections orig opts loaded application"
  shows "\<exists>mutated.
           assignAll (enabledAssignments orig opts) loaded application = Inr mutated
         \<and> fst (onStart h orig opts w) = None
         \<and> events (snd (onStart h orig opts w)) = events w @ [Finish]
         \<and> trace (snd (onStart h orig opts w)) =
             trace w
             @ [IsCorrectDockerComposeVersion, CheckDocker, CheckDockerResources (multiNode opts),
                IsPortInUse (NECESSARY_PORTS @ OPTIONAL_PORTS),
                CreateEphemeralDirectories (workDir opts), CopyPaths (configFiles h opts)]
             @ (case (case nodeConfiguration configurationData of
                        None \<Rightarrow> None | Some node \<Rightarrow> properties node) of
                  None \<Rightarrow> []
                | Some overrides \<Rightarrow>
                    [WriteFileSync (bootstrapPropertiesPath h opts)
                       (propertiesText (bootsrapProperties orig @ overrides))])
             @ [ReadFileSync (applicationYmlPath h opts),
                WriteFileSync (applicationYmlPath h opts) (yaml_dump h 256 mutated application)]
         \<and> files (fs (snd (onStart h orig opts w))) (applicationYmlPath h opts) =
             Some (yaml_dump h 256 mutated application)
         \<and> files (fs (snd (onStart h orig opts w))) (bootstrapPropertiesPath h opts) =
             (case (case nodeConfiguration configurationData of
                      None \<Rightarrow> None | Some node \<Rightarrow> properties node) of
                None \<Rightarrow> files tree2 (bootstrapPropertiesPath h opts)
              | Some overrides \<Rightarrow> Some (propertiesText (bootsrapProperties orig @ overrides)))
         \<and> (distinct [join h [dirname h, ''../../compose-network/network-node/data/config/''],
                      join h [dirname h, APPLICATION_YML_RELATIVE_PATH],
                      join h [dirname h, ''../../src/services/record-parser'']] \<longrightarrow>
              configFiles h opts =
                [(join h [dirname h, ''../../compose-network/network-node/data/config/''],
                  workDir opts @ ''/compose-network/network-node/data/config''),
                 (join h [dirname h, APPLICATION_YML_RELATIVE_PATH],
                  workDir opts @ ''/compose-network/mirror-node/application.yml''),
                 (join h [dirname h, ''../../src/services/record-parser''],
                  workDir opts @ ''/services/record-parser'')])"
proof -
  from onStart_success [OF assms] obtain mutated where
    "assignAll (enabledAssignments orig opts) loaded application = Inr mutated"
    "fst (onStart h orig opts w) = None"
    "events (snd (onStart h orig opts w)) = events w @ [Finish]"
    "trace (snd (onStart h orig opts w)) =
             trace w
             @ [IsCorrectDockerComposeVersion, CheckDocker, CheckDockerResources (multiNode opts),
                IsPortInUse (NECESSARY_PORTS @ OPTIONAL_PORTS),
                CreateEphemeralDirectories (workDir opts), CopyPaths (configFiles h opts)]
             @ (case (case nodeConfiguration configurationData of
                        None \<Rightarrow> None | Some node \<Rightarrow> properties node) of
                  None \<Rightarrow> []
                | Some overrides \<Rightarrow>
                    [WriteFileSync (bootstrapPropertiesPath h opts)
                       (propertiesText (bootsrapProperties orig @ overrides))])
             @ [ReadFileSync (applicationYmlPath h opts),
                WriteFileSync (applicationYmlPath h opts) (yaml_dump h 256 mutated application)]"
    "files (fs (snd (onStart h orig opts w))) (applicationYmlPath h opts) =
             Some (yaml_dump h 256 mutated application)"
    "files (fs (snd (onStart h orig opts w))) (bootstrapPropertiesPath h opts) =
             (case (case nodeConfiguration configurationData of
                      None \<Rightarrow> None | Some node \<Rightarrow> properties node) of
                None \<Rightarrow> files tree2 (bootstrapPropertiesPath h opts)
              | Some overrides \<Rightarrow> Some (propertiesText (bootsrapProperties orig @ overrides)))"
    by blast
  with configFiles_three [of h opts] show ?thesis
    by blast
qed

text \<open>
  The example of the spec: the local network, single node, full mode, limits
  disabled, on a host where only the optional port 8080 is in use.
\<close>

theorem onStart_completes_witness:
  "observer demoWorld
   \<and> catalog demoHost (network demoOptions) = Some demoLocal
   \<and> hasSections demoOriginal demoOptions (objects demoOriginal ++ map_of shippedObjects) (YRef 0)
   \<and> fst (onStart demoHost demoOriginal demoOptions demoWorld) = None
   \<and> events (snd (onStart demoHost demoOriginal demoOptions demoWorld)) = [Finish]
   \<and> trace (snd (onStart demoHost demoOriginal demoOptions demoWorld)) =
       [IsCorrectDockerComposeVersion, CheckDocker, CheckDockerResources False,
        IsPortInUse (NECESSARY_PORTS @ OPTIONAL_PORTS),
        CreateEphemeralDirectories ''/work'',
        CopyPaths
          [(''/app/compose-network/network-node/data/config/'',
            ''/work/compose-network/network-node/data/config''),
           (''/app/compose-network/mirror-node/application.yml'',
            ''/work/compose-network/mirror-node/application.yml''),
           (''/app/src/services/record-parser'', ''/work/services/record-parser'')],
        WriteFileSync ''/work/compose-network/network-node/data/config/bootstrap.properties''
          ''ledger.id=0x03\<newline>contracts.chainId=298\<newline>'',
        ReadFileSync ''/work/compose-network/mirror-node/application.yml'',
        WriteFileSync ''/work/compose-network/mirror-node/application.yml''
          (demoDump 256 (objects demoOriginal ++ map_of shippedObjects) (YRef 0))]
   \<and> files (fs (snd (onStart demoHost demoOriginal demoOptions demoWorld)))
        ''/work/compose-network/network-node/data/config/bootstrap.properties''
       = Some ''ledger.id=0x03\<newline>contracts.chainId=298\<newline>''"
proof -
  let ?tree1 = "snd (ephemeralDirectories ''/work'' demoTree)"
  let ?tree2 = "snd (copyPaths demoHost (configFiles demoHost demoOptions) ?tree1)"
  have subscribed: "observer demoWorld"
    by (simp add: demoWorld_def)
  have known: "catalog demoHost (network demoOptions) = Some demoLocal"
    by (simp add: demoHost_def demoCatalog_def demoOptions_def)
  have ready: "isCorrectDockerComposeVersion demoHost" "checkDocker demoHost"
    "checkDockerResources demoHost (multiNode demoOptions)"
    by (simp_all add: demoHost_def)
  have free: "\<forall>port\<in>set NECESSARY_PORTS. \<not> portBusy demoHost port"
    by (simp add: NECESSARY_PORTS_def demoHost_def)
  have made: "createEphemeralDirectories demoHost (workDir demoOptions) (fs demoWorld) = (None, ?tree1)"
    by (simp add: demoHost_def demoOptions_def demoWorld_def ephemeralDirectories_def)
  have "fst (copyPaths demoHost (configFiles demoHost demoOptions) ?tree1) = None"
    by code_simp
  then have copied: "copyPaths demoHost (configFiles demoHost demoOptions) ?tree1 = (None, ?tree2)"
    by (simp add: prod_eq_iff)
  have allowed: "\<not> writeDenied demoHost (bootstrapPropertiesPath demoHost demoOptions)"
    "\<not> writeDenied demoHost (applicationYmlPath demoHost demoOptions)"
    by (simp_all add: demoHost_def)
  have properties: "bootstrapPropertiesPath demoHost demoOptions =
      ''/work/compose-network/network-node/data/config/bootstrap.properties''"
    by code_simp
  have document: "applicationYmlPath demoHost demoOptions =
      ''/work/compose-network/mirror-node/application.yml''"
    by code_simp
  have apart: "bootstrapPropertiesPath demoHost demoOptions \<noteq> applicationYmlPath demoHost demoOptions"
    by (simp add: properties document)
  have there: "files ?tree2 (applicationYmlPath demoHost demoOptions) = Some shippedApplicationText"
    by code_simp
  have loaded: "yaml_load demoHost shippedApplicationText (objects demoOriginal)
      = Inr (YRef 0, objects demoOriginal ++ map_of shippedObjects)"
    by (simp add: demoHost_def demoLoad_def)
  have sections: "hasSections demoOriginal demoOptions (objects demoOriginal ++ map_of shippedObjects) (YRef 0)"
    by code_simp
  have pairs: "configFiles demoHost demoOptions =
      [(''/app/compose-network/network-node/data/config/'',
        ''/work/compose-network/network-node/data/config''),
       (''/app/compose-network/mirror-node/application.yml'',
        ''/work/compose-network/mirror-node/application.yml''),
       (''/app/src/services/record-parser'', ''/work/services/record-parser'')]"
    by code_simp
  have none: "enabledAssignments demoOriginal demoOptions = []"
    by (simp add: enabledAssignments_def demoOptions_def)
  have overrides: "(case nodeConfiguration demoLocal of None \<Rightarrow> None | Some node \<Rightarrow> properties node)
      = Some [\<lparr>key = ''contracts.chainId'', value = ''298''\<rparr>]"
    by (simp add: demoLocal_def)
  have lines: "propertiesText (bootsrapProperties demoOriginal
                  @ [\<lparr>key = ''contracts.chainId'', value = ''298''\<rparr>])
      = ''ledger.id=0x03\<newline>contracts.chainId=298\<newline>''"
    by (simp add: propertiesText_def propertyLine_def demoOriginal_def)
  from onStart_completes [OF subscribed known ready free made copied allowed apart there
      loaded sections]
  obtain mutated where
    "assignAll (enabledAssignments demoOriginal demoOptions)
       (objects demoOriginal ++ map_of shippedObjects) (YRef 0) = Inr mutated"
    "fst (onStart demoHost demoOriginal demoOptions demoWorld) = None"
    "events (snd (onStart demoHost demoOriginal demoOptions demoWorld)) = events demoWorld @ [Finish]"
    "trace (snd (onStart demoHost demoOriginal demoOptions demoWorld)) =
       trace demoWorld
       @ [IsCorrectDockerComposeVersion, CheckDocker, CheckDockerResources (multiNode demoOptions),
          IsPortInUse (NECESSARY_PORTS @ OPTIONAL_PORTS),
          CreateEphemeralDirectories (workDir demoOptions),
          CopyPaths (configFiles demoHost demoOptions)]
       @ (case (case nodeConfiguration demoLocal of
                  None \<Rightarrow> None | Some node \<Rightarrow> properties node) of
            None \<Rightarrow> []
          | Some overrides \<Rightarrow>
              [WriteFileSync (bootstrapPropertiesPath demoHost demoOptions)
                 (propertiesText (bootsrapProperties demoOriginal @ overrides))])
       @ [ReadFileSync (applicationYmlPath demoHost demoOptions),
          WriteFileSync (applicationYmlPath demoHost demoOptions)
            (yaml_dump demoHost 256 mutated (YRef 0))]"
    "files (fs (snd (onStart demoHost demoOriginal demoOptions demoWorld)))
        (bootstrapPropertiesPath demoHost demoOptions) =
       (case (case nodeConfiguration demoLocal of
                None \<Rightarrow> None | Some node \<Rightarrow> properties node) of
          None \<Rightarrow> files ?tree2 (bootstrapPropertiesPath demoHost demoOptions)
        | Some overrides \<Rightarrow> Some (propertiesText (bootsrapProperties demoOriginal @ overrides)))"
    by blast
  moreover have "trace demoWorld = []" "events demoWorld = []"
    "workDir demoOptions = ''/work''" "multiNode demoOptions = False"
    "yaml_dump demoHost = demoDump"
    by (simp_all add: demoWorld_def demoOptions_def demoHost_def)
  ultimately show ?thesis
    using subscribed known sections
    by (simp add: none overrides lines pairs properties document)
qed

text \<open>
  The claim as stated fails for a catalog entry without node properties: every check
  is true, the network is recognized, all reads and writes succeed and \<open>Finish\<close> is
  sent once, yet the properties file is never written; it holds the shipped copy,
  not the base template.
\<close>

theorem onStart_completes_without_properties_write:
  "observer demoWorld
   \<and> catalog demoHost (network (demoOptions\<lparr>network := ''bare''\<rparr>)) = Some demoBare
   \<and> isCorrectDockerComposeVersion demoHost \<and> checkDocker demoHost
   \<and> checkDockerResources demoHost (multiNode (demoOptions\<lparr>network := ''bare''\<rparr>))
   \<and> fst (onStart demoHost demoOriginal (demoOptions\<lparr>network := ''bare''\<rparr>) demoWorld) = None
   \<and> events (snd (onStart demoHost demoOriginal (demoOptions\<lparr>network := ''bare''\<rparr>) demoWorld))
       = [Finish]
   \<and> trace (snd (onStart demoHost demoOriginal (demoOptions\<lparr>network := ''bare''\<rparr>) demoWorld)) =
       [IsCorrectDockerComposeVersion, CheckDocker, CheckDockerResources False,
        IsPortInUse (NECESSARY_PORTS @ OPTIONAL_PORTS),
        CreateEphemeralDirectories ''/work'',
        CopyPaths
          [(''/app/compose-network/network-node/data/config/'',
            ''/work/compose-network/network-node/data/config''),
           (''/app/compose-network/mirror-node/application.yml'',
            ''/work/compose-network/mirror-node/application.yml''),
           (''/app/src/services/record-parser'', ''/work/services/record-parser'')],
        ReadFileSync ''/work/compose-network/mirror-node/application.yml'',
        WriteFileSync ''/work/compose-network/mirror-node/application.yml''
          (demoDump 256 (objects demoOriginal ++ map_of shippedObjects) (YRef 0))]
   \<and> files (fs (snd (onStart demoHost demoOriginal (demoOptions\<lparr>network := ''bare''\<rparr>) demoWorld)))
        ''/work/compose-network/network-node/data/config/bootstrap.properties''
       = Some ''shipped=1''
   \<and> propertiesText (bootsrapProperties demoOriginal) = ''ledger.id=0x03\<newline>''"
proof -
  let ?opts = "demoOptions\<lparr>network := ''bare''\<rparr>"
  let ?tree1 = "snd (ephemeralDirectories ''/work'' demoTree)"
  let ?tree2 = "snd (copyPaths demoHost (configFiles demoHost ?opts) ?tree1)"
  have subscribed: "observer demoWorld"
    by (simp add: demoWorld_def)
  have known: "catalog demoHost (network ?opts) = Some demoBare"
    by (simp add: demoHost_def demoCatalog_def)
  have ready: "isCorrectDockerComposeVersion demoHost" "checkDocker demoHost"
    "checkDockerResources demoHost (multiNode ?opts)"
    by (simp_all add: demoHost_def)
  have free: "\<forall>port\<in>set NECESSARY_PORTS. \<not> portBusy demoHost port"
    by (simp add: NECESSARY_PORTS_def demoHost_def)
  have made: "createEphemeralDirectories demoHost (workDir ?opts) (fs demoWorld) = (None, ?tree1)"
    by (simp add: demoHost_def demoOptions_def demoWorld_def ephemeralDirectories_def)
  have "fst (copyPaths demoHost (configFiles demoHost ?opts) ?tree1) = None"
    by code_simp
  then have copied: "copyPaths demoHost (configFiles demoHost ?opts) ?tree1 = (None, ?tree2)"
    by (simp add: prod_eq_iff)
  have allowed: "\<not> writeDenied demoHost (bootstrapPropertiesPath demoHost ?opts)"
    "\<not> writeDenied demoHost (applicationYmlPath demoHost ?opts)"
    by (simp_all add: demoHost_def)
  have properties: "bootstrapPropertiesPath demoHost ?opts =
      ''/work/compose-network/network-node/data/config/bootstrap.properties''"
    by code_simp
  have document: "applicationYmlPath demoHost ?opts =
      ''/work/compose-network/mirror-node/application.yml''"
    by code_simp
  have apart: "bootstrapPropertiesPath demoHost ?opts \<noteq> applicationYmlPath demoHost ?opts"
    by (simp add: properties document)
  have there: "files ?tree2 (applicationYmlPath demoHost ?opts) = Some shippedApplicationText"
    by code_simp
  have shipped: "files ?tree2 (bootstrapPropertiesPath demoHost ?opts) = Some ''shipped=1''"
    by code_simp
  have loaded: "yaml_load demoHost shippedApplicationText (objects demoOriginal)
      = Inr (YRef 0, objects demoOriginal ++ map_of shippedObjects)"
    by (simp add: demoHost_def demoLoad_def)
  have sections: "hasSections demoOriginal ?opts (objects demoOriginal ++ map_of shippedObjects) (YRef 0)"
    by code_simp
  have pairs: "configFiles demoHost ?opts =
      [(''/app/compose-network/network-node/data/config/'',
        ''/work/compose-network/network-node/data/config''),
       (''/app/compose-network/mirror-node/application.yml'',
        ''/work/compose-network/mirror-node/application.yml''),
       (''/app/src/services/record-parser'', ''/work/services/record-parser'')]"
    by code_simp
  have none: "enabledAssignments demoOriginal ?opts = []"
    by (simp add: enabledAssignments_def demoOptions_def)
  have bare: "(case nodeConfiguration demoBare of None \<Rightarrow> None | Some node \<Rightarrow> properties node)
      = None"
    by (simp add: demoBare_def)
  have base: "propertiesText (bootsrapProperties demoOriginal) = ''ledger.id=0x03\<newline>''"
    by (simp add: propertiesText_def propertyLine_def demoOriginal_def)
  from onStart_success [OF subscribed known ready free made copied allowed apart there
      loaded sections]
  obtain mutated where
    "assignAll (enabledAssignments demoOriginal ?opts)
       (objects demoOriginal ++ map_of shippedObjects) (YRef 0) = Inr mutated"
    "fst (onStart demoHost demoOriginal ?opts demoWorld) = None"
    "events (snd (onStart demoHost demoOriginal ?opts demoWorld)) = events demoWorld @ [Finish]"
    "trace (snd (onStart demoHost demoOriginal ?opts demoWorld)) =
       trace demoWorld
       @ [IsCorrectDockerComposeVersion, CheckDocker, CheckDockerResources (multiNode ?opts),
          IsPortInUse (NECESSARY_PORTS @ OPTIONAL_PORTS),
          CreateEphemeralDirectories (workDir ?opts),
          CopyPaths (configFiles demoHost ?opts)]
       @ (case (case nodeConfiguration demoBare of
                  None \<Rightarrow> None | Some node \<Rightarrow> properties node) of
            None \<Rightarrow> []
          | Some overrides \<Rightarrow>
              [WriteFileSync (bootstrapPropertiesPath demoHost ?opts)
                 (propertiesText (bootsrapProperties demoOriginal @ overrides))])
       @ [ReadFileSync (applicationYmlPath demoHost ?opts),
          WriteFileSync (applicationYmlPath demoHost ?opts)
            (yaml_dump demoHost 256 mutated (YRef 0))]"
    "files (fs (snd (onStart demoHost demoOriginal ?opts demoWorld)))
        (bootstrapPropertiesPath demoHost ?opts) =
       (case (case nodeConfiguration demoBare of
                None \<Rightarrow> None | Some node \<Rightarrow> properties node) of
          None \<Rightarrow> files ?tree2 (bootstrapPropertiesPath demoHost ?opts)
        | Some overrides \<Rightarrow> Some (propertiesText (bootsrapProperties demoOriginal @ overrides)))"
    by blast
  moreover have "trace demoWorld = []" "events demoWorld = []"
    "workDir ?opts = ''/work''" "multiNode ?opts = False"
    "yaml_dump demoHost = demoDump"
    by (simp_all add: demoWorld_def demoOptions_def demoHost_def)
  ultimately show ?thesis
    using subscribed known ready base
    by (simp add: none bare pairs properties document shipped [unfolded pairs properties])
qed



end
